theory Spec2Isabelle
  imports Main "HOL-Library.Code_Target_Numeral"
begin

text \<open>
  A shallow embedding of the course registry of the learning-management program
  \<^verbatim>\<open>final-project-oop.cpp\<close>: the validator, the \<^verbatim>\<open>Course\<close> entity, the
  \<^verbatim>\<open>LMSManager\<close> registry, the admin and teacher operations that change or copy
  registry state, and the bootstrap of \<^verbatim>\<open>main\<close>. Console output is left out; what an
  operation reads from the console is an argument of its model. Indices and grades are
  C++ \<^verbatim>\<open>int\<close>s and are modelled as integers, no arithmetic on them leaves the range.
\<close>

section \<open>Exceptions\<close>

text \<open>
  The two exception classes thrown by the entity and registry layers:
  \<^verbatim>\<open>ValidationException(msg)\<close> and \<^verbatim>\<open>InvalidCourseIndexException()\<close>.
  A method that throws is modelled as returning the thrown exception together with the
  object as the throw leaves it; \<open>None\<close> is a normal return.
\<close>

datatype error = ValidationException string | InvalidCourseIndexException

section \<open>Machine sizes\<close>

text \<open>
  \<^verbatim>\<open>string::npos\<close> is the largest \<^verbatim>\<open>size_t\<close>; \<^verbatim>\<open>size_t\<close> arithmetic wraps modulo
  \<open>2 ^ 64\<close>. A \<^verbatim>\<open>size_t\<close> passed where an \<^verbatim>\<open>int\<close> parameter is expected
  (\<^verbatim>\<open>isValidIndex(index, contents.size())\<close>) is reduced to 32 bits, two's complement.
\<close>

definition npos :: nat where
  "npos = 2 ^ 64 - 1"

definition size_to_int :: "nat \<Rightarrow> int" where
  "size_to_int n =
     (let m = int n mod 2 ^ 32 in if m < 2 ^ 31 then m else m - 2 ^ 32)"

section \<open>Validator\<close>

text \<open>\<^verbatim>\<open>email.find(ch)\<close>: the position of the first occurrence, when there is one.\<close>

fun find_char :: "char \<Rightarrow> string \<Rightarrow> nat option" where
  "find_char ch [] = None"
| "find_char ch (x # xs) =
     (if x = ch then Some 0 else map_option Suc (find_char ch xs))"

text \<open>\<^verbatim>\<open>email.rfind(ch)\<close>: the position of the last occurrence, when there is one.\<close>

fun rfind_char :: "char \<Rightarrow> string \<Rightarrow> nat option" where
  "rfind_char ch [] = None"
| "rfind_char ch (x # xs) =
     (case rfind_char ch xs of
        Some k \<Rightarrow> Some (Suc k)
      | None \<Rightarrow> if x = ch then Some 0 else None)"

definition find_pos :: "string \<Rightarrow> char \<Rightarrow> nat" where
  "find_pos s ch = (case find_char ch s of None \<Rightarrow> npos | Some i \<Rightarrow> i)"

definition rfind_pos :: "string \<Rightarrow> char \<Rightarrow> nat" where
  "rfind_pos s ch = (case rfind_char ch s of None \<Rightarrow> npos | Some i \<Rightarrow> i)"

text \<open>
  The conjunction is evaluated left to right; \<^verbatim>\<open>email.length() - 1\<close> is a subtraction
  of \<^verbatim>\<open>size_t\<close> and wraps to \<^verbatim>\<open>npos\<close> on the empty string.
\<close>

definition isValidEmail :: "string \<Rightarrow> bool" where
  "isValidEmail e =
     (let atPos = find_pos e CHR ''@'';
          dotPos = rfind_pos e CHR ''.''
      in atPos \<noteq> npos \<and> dotPos \<noteq> npos \<and>
         atPos < dotPos \<and> atPos > 0 \<and>
         dotPos < (length e + 2 ^ 64 - 1) mod 2 ^ 64)"

definition isValidGrade :: "int \<Rightarrow> bool" where
  "isValidGrade grade = (grade \<ge> 0 \<and> grade \<le> 100)"

definition isValidIndex :: "int \<Rightarrow> int \<Rightarrow> bool" where
  "isValidIndex index maxSize = (index \<ge> 0 \<and> index < maxSize)"

definition isValidString :: "string \<Rightarrow> bool" where
  "isValidString str = (str \<noteq> [] \<and> length str \<le> 100)"

text \<open>
  \<^verbatim>\<open>getValidatedIntInput(prompt, min, max)\<close> re-prompts until a number in range is
  read. The input is the list of lines offered to the prompt, \<open>None\<close> for a line that is
  not a number; the result is \<open>None\<close> when no offered line is accepted, in which case
  the loop does not return.
\<close>

fun getValidatedIntInput :: "int option list \<Rightarrow> int \<Rightarrow> int \<Rightarrow> int option" where
  "getValidatedIntInput [] lo hi = None"
| "getValidatedIntInput (Some v # rest) lo hi =
     (if v \<ge> lo \<and> v \<le> hi then Some v else getValidatedIntInput rest lo hi)"
| "getValidatedIntInput (None # rest) lo hi = getValidatedIntInput rest lo hi"

section \<open>The two readings of the e-mail rule\<close>

text \<open>
  The rule as the testable property words it: some \<open>'@'\<close> at a position greater than 0
  is followed later by some \<open>'.'\<close> that has at least one character after it.
\<close>

definition spec_isValidEmail :: "string \<Rightarrow> bool" where
  "spec_isValidEmail e =
     list_ex (\<lambda>i. list_ex (\<lambda>j.
        e ! i = CHR ''@'' \<and> 0 < i \<and> i < j \<and> e ! j = CHR ''.'' \<and> j + 1 < length e)
        [0..<length e]) [0..<length e]"

text \<open>
  The rule as the validator's description words it: an \<open>'@'\<close> stands before a later
  \<open>'.'\<close>, \<open>'@'\<close> is not the first character and \<open>'.'\<close> is not the last character.
\<close>

definition shape_isValidEmail :: "string \<Rightarrow> bool" where
  "shape_isValidEmail e =
     (list_ex (\<lambda>i. list_ex (\<lambda>j.
        e ! i = CHR ''@'' \<and> i < j \<and> e ! j = CHR ''.'')
        [0..<length e]) [0..<length e]
      \<and> e \<noteq> [] \<and> hd e \<noteq> CHR ''@'' \<and> last e \<noteq> CHR ''.'')"

section \<open>Users\<close>

text \<open>
  \<^verbatim>\<open>class User\<close> with its three subclasses; the subclass of an object is its role.
  The global \<^verbatim>\<open>vector<UserPtr> users\<close> is a list of such records.
\<close>

datatype role = Admin | Teacher | Student

record user =
  role :: role
  username :: string
  email :: string
  password :: string

section \<open>Course\<close>

record course =
  courseName :: string
  teacherEmail :: string
  contents :: "string list"
  grades :: "(string \<times> int) list"
  enrolledStudents :: "string list"

text \<open>The constructor throws before any object exists.\<close>

definition Course :: "string \<Rightarrow> string \<Rightarrow> error + course" where
  "Course name teacher =
     (if \<not> isValidString name then Inl (ValidationException ''Invalid course name'')
      else if \<not> isValidEmail teacher then Inl (ValidationException ''Invalid teacher email'')
      else Inr \<lparr>courseName = name, teacherEmail = teacher,
                contents = [], grades = [], enrolledStudents = []\<rparr>)"

definition addContent :: "string \<Rightarrow> course \<Rightarrow> error option \<times> course" where
  "addContent content c =
     (if \<not> isValidString content then (Some (ValidationException ''Invalid content''), c)
      else (None, c\<lparr>contents := contents c @ [content]\<rparr>))"

text \<open>\<^verbatim>\<open>v.erase(v.begin() + index)\<close> for an index in range.\<close>

definition erase :: "nat \<Rightarrow> 'a list \<Rightarrow> 'a list" where
  "erase i xs = take i xs @ drop (Suc i) xs"

definition removeContent :: "int \<Rightarrow> course \<Rightarrow> error option \<times> course" where
  "removeContent index c =
     (if \<not> isValidIndex index (size_to_int (length (contents c)))
      then (Some InvalidCourseIndexException, c)
      else (None, c\<lparr>contents := erase (nat index) (contents c)\<rparr>))"

definition addGrade :: "string \<Rightarrow> int \<Rightarrow> course \<Rightarrow> error option \<times> course" where
  "addGrade studentEmail grade c =
     (if \<not> isValidEmail studentEmail
      then (Some (ValidationException ''Invalid student email''), c)
      else if \<not> isValidGrade grade then (Some (ValidationException ''Invalid grade''), c)
      else (None, c\<lparr>grades := grades c @ [(studentEmail, grade)]\<rparr>))"

definition getGrades :: "course \<Rightarrow> (string \<times> int) list" where
  "getGrades c = grades c"

text \<open>The scan of \<^verbatim>\<open>enrollStudent\<close>: is some enrolled e-mail equal to the given one.\<close>

fun already_enrolled :: "string list \<Rightarrow> string \<Rightarrow> bool" where
  "already_enrolled [] studentEmail = False"
| "already_enrolled (enrolledEmail # rest) studentEmail =
     (if enrolledEmail = studentEmail then True else already_enrolled rest studentEmail)"

definition enrollStudent :: "string \<Rightarrow> course \<Rightarrow> error option \<times> course" where
  "enrollStudent studentEmail c =
     (if \<not> isValidEmail studentEmail
      then (Some (ValidationException ''Invalid student email''), c)
      else if already_enrolled (enrolledStudents c) studentEmail
      then (Some (ValidationException ''Student already enrolled''), c)
      else (None, c\<lparr>enrolledStudents := enrolledStudents c @ [studentEmail]\<rparr>))"

text \<open>
  The loop of \<^verbatim>\<open>removeStudent\<close>: erase the first element equal to the given e-mail and
  return; \<open>None\<close> when the iterator reaches the end.
\<close>

fun erase_first :: "string list \<Rightarrow> string \<Rightarrow> string list option" where
  "erase_first [] studentEmail = None"
| "erase_first (x # rest) studentEmail =
     (if x = studentEmail then Some rest
      else map_option (Cons x) (erase_first rest studentEmail))"

definition removeStudent :: "string \<Rightarrow> course \<Rightarrow> error option \<times> course" where
  "removeStudent studentEmail c =
     (case erase_first (enrolledStudents c) studentEmail of
        Some rest \<Rightarrow> (None, c\<lparr>enrolledStudents := rest\<rparr>)
      | None \<Rightarrow> (Some (ValidationException ''Student not found''), c))"

definition getCourseName :: "course \<Rightarrow> string" where
  "getCourseName c = courseName c"

definition getTeacherEmail :: "course \<Rightarrow> string" where
  "getTeacherEmail c = teacherEmail c"

definition getStudents :: "course \<Rightarrow> string list" where
  "getStudents c = enrolledStudents c"

definition getContents :: "course \<Rightarrow> string list" where
  "getContents c = contents c"

text \<open>The five mutating methods of the class, as one type of calls.\<close>

datatype course_op =
    AddContent string
  | RemoveContent int
  | AddGrade string int
  | EnrollStudent string
  | RemoveStudent string

fun course_call :: "course_op \<Rightarrow> course \<Rightarrow> error option \<times> course" where
  "course_call (AddContent content) c = addContent content c"
| "course_call (RemoveContent index) c = removeContent index c"
| "course_call (AddGrade studentEmail grade) c = addGrade studentEmail grade c"
| "course_call (EnrollStudent studentEmail) c = enrollStudent studentEmail c"
| "course_call (RemoveStudent studentEmail) c = removeStudent studentEmail c"

text \<open>A sequence of calls on one object; a throwing call leaves the object and is caught.\<close>

fun course_calls :: "course_op list \<Rightarrow> course \<Rightarrow> course" where
  "course_calls [] c = c"
| "course_calls (call # rest) c = course_calls rest (snd (course_call call c))"

section \<open>LMSManager\<close>

record LMSManager =
  courses :: "course list"

definition addCourse :: "course \<Rightarrow> LMSManager \<Rightarrow> LMSManager" where
  "addCourse c m = m\<lparr>courses := courses m @ [c]\<rparr>"

text \<open>
  \<^verbatim>\<open>getCourse\<close> returns \<^verbatim>\<open>Course&\<close>, a reference to the element \<^verbatim>\<open>courses[index]\<close>
  of the registry's own vector: the handle is the position, and a method called on the
  reference reads and writes the registry at that position.
\<close>

definition getCourse :: "int \<Rightarrow> LMSManager \<Rightarrow> error + nat" where
  "getCourse index m =
     (if \<not> isValidIndex index (size_to_int (length (courses m)))
      then Inl InvalidCourseIndexException
      else Inr (nat index))"

definition call_through ::
  "nat \<Rightarrow> (course \<Rightarrow> error option \<times> course) \<Rightarrow> LMSManager \<Rightarrow> error option \<times> LMSManager" where
  "call_through h method m =
     (let (thrown, c') = method (courses m ! h)
      in (thrown, m\<lparr>courses := (courses m)[h := c']\<rparr>))"

definition removeCourse :: "int \<Rightarrow> LMSManager \<Rightarrow> error option \<times> LMSManager" where
  "removeCourse index m =
     (if \<not> isValidIndex index (size_to_int (length (courses m)))
      then (Some InvalidCourseIndexException, m)
      else (None, m\<lparr>courses := erase (nat index) (courses m)\<rparr>))"

definition getCourses :: "LMSManager \<Rightarrow> course list" where
  "getCourses m = courses m"

section \<open>Process state\<close>

text \<open>The singleton \<^verbatim>\<open>LMSManager::instance\<close> and the global \<^verbatim>\<open>users\<close>.\<close>

record system =
  lms :: LMSManager
  users :: "user list"

text \<open>The scan \<^verbatim>\<open>for (user : users) if (user->getEmail() == e) { found = true; break; }\<close>.\<close>

fun email_registered :: "user list \<Rightarrow> string \<Rightarrow> bool" where
  "email_registered [] e = False"
| "email_registered (u # rest) e = (if email u = e then True else email_registered rest e)"

section \<open>Admin operations\<close>

text \<open>The scan of \<^verbatim>\<open>Admin::addCourse\<close> over the registry for a course of this teacher.\<close>

fun teacher_assigned :: "course list \<Rightarrow> string \<Rightarrow> bool" where
  "teacher_assigned [] teacher = False"
| "teacher_assigned (c # rest) teacher =
     (if getTeacherEmail c = teacher then True else teacher_assigned rest teacher)"

text \<open>
  \<^verbatim>\<open>Admin::addCourse\<close>. The arguments are the lines read from the console: the course
  name, the teacher's e-mail and, read only when the e-mail is not registered, the
  answer to the offer and the new teacher's name and password. The constructor's
  exception is not caught in this function and leaves it.
\<close>

definition Admin_addCourse ::
  "string \<Rightarrow> string \<Rightarrow> char \<Rightarrow> string \<Rightarrow> string \<Rightarrow> system \<Rightarrow> error option \<times> system" where
  "Admin_addCourse name teacher addTeacher teacherName teacherPassword s =
     (let teacherExists = email_registered (users s) teacher
      in if \<not> teacherExists \<and> addTeacher \<noteq> CHR ''y'' \<and> addTeacher \<noteq> CHR ''Y''
         then (None, s)
         else
           let s1 = (if \<not> teacherExists
                     then s\<lparr>users := users s @
                            [\<lparr>role = Teacher, username = teacherName,
                              email = teacher, password = teacherPassword\<rparr>]\<rparr>
                     else s)
           in if teacher_assigned (getCourses (lms s1)) teacher then (None, s1)
              else (case Course name teacher of
                      Inl e \<Rightarrow> (Some e, s1)
                    | Inr newCourse \<Rightarrow> (None, s1\<lparr>lms := addCourse newCourse (lms s1)\<rparr>)))"

text \<open>
  The e-mail prompt of \<^verbatim>\<open>Admin::enrollStudent\<close>: it repeats on an invalid e-mail, and
  on a valid one either returns from the whole operation (the e-mail is registered) or
  accepts it.
\<close>

datatype email_prompt = NoInput | AlreadyRegistered | Accepted string

fun enroll_prompt :: "user list \<Rightarrow> string list \<Rightarrow> email_prompt" where
  "enroll_prompt us [] = NoInput"
| "enroll_prompt us (studentEmail # rest) =
     (if isValidEmail studentEmail
      then (if email_registered us studentEmail then AlreadyRegistered
            else Accepted studentEmail)
      else enroll_prompt us rest)"

text \<open>
  \<^verbatim>\<open>Admin::enrollStudent\<close>. The result is \<open>None\<close> when a prompt never gets an acceptable
  line. Every exception is caught inside the function.
\<close>

definition Admin_enrollStudent ::
  "int option list \<Rightarrow> string list \<Rightarrow> string \<Rightarrow> system \<Rightarrow> system option" where
  "Admin_enrollStudent indexInput emailInput studentPassword s =
     (if getCourses (lms s) = [] then Some s
      else
        case getValidatedIntInput indexInput 1 (size_to_int (length (getCourses (lms s)))) of
          None \<Rightarrow> None
        | Some userIndex \<Rightarrow>
            (case getCourse (userIndex - 1) (lms s) of
               Inl e \<Rightarrow> Some s
             | Inr h \<Rightarrow>
                 (case enroll_prompt (users s) emailInput of
                    NoInput \<Rightarrow> None
                  | AlreadyRegistered \<Rightarrow> Some s
                  | Accepted studentEmail \<Rightarrow>
                      let newStudent =
                            \<lparr>role = Student,
                             username = take (find_pos studentEmail CHR ''@'') studentEmail,
                             email = studentEmail, password = studentPassword\<rparr>;
                          s1 = s\<lparr>users := users s @ [newStudent]\<rparr>
                      in Some (s1\<lparr>lms := snd (call_through h (enrollStudent studentEmail)
                                                (lms s1))\<rparr>))))"

section \<open>Teacher operations\<close>

text \<open>
  The teacher's operations first build \<^verbatim>\<open>vector<Course> assignedCourses\<close> by
  \<^verbatim>\<open>push_back\<close> of every registry course whose teacher e-mail is the caller's: a vector
  of copies, local to the call.
\<close>

definition assigned_courses :: "user \<Rightarrow> course list \<Rightarrow> course list" where
  "assigned_courses self cs = filter (\<lambda>c. getTeacherEmail c = email self) cs"

fun read_valid_email :: "string list \<Rightarrow> string option" where
  "read_valid_email [] = None"
| "read_valid_email (studentEmail # rest) =
     (if isValidEmail studentEmail then Some studentEmail else read_valid_email rest)"

fun student_found :: "string list \<Rightarrow> string \<Rightarrow> bool" where
  "student_found [] studentEmail = False"
| "student_found (student # rest) studentEmail =
     (if student = studentEmail then True else student_found rest studentEmail)"

text \<open>
  The result pairs the local vector as it is when the function returns with the process
  state; \<open>None\<close> when a prompt never gets an acceptable line.
\<close>

definition Teacher_addGrade_local ::
  "user \<Rightarrow> int option list \<Rightarrow> string list \<Rightarrow> int option list \<Rightarrow> system
     \<Rightarrow> (course list \<times> system) option" where
  "Teacher_addGrade_local self indexInput emailInput gradeInput s =
     (if getCourses (lms s) = [] then Some ([], s)
      else
        let assignedCourses = assigned_courses self (getCourses (lms s))
        in if assignedCourses = [] then Some (assignedCourses, s)
           else
             case getValidatedIntInput indexInput 1 (size_to_int (length assignedCourses)) of
               None \<Rightarrow> None
             | Some courseIndex \<Rightarrow>
                 (case read_valid_email emailInput of
                    None \<Rightarrow> None
                  | Some studentEmail \<Rightarrow>
                      let k = nat (courseIndex - 1)
                      in if \<not> student_found (getStudents (assignedCourses ! k)) studentEmail
                         then Some (assignedCourses, s)
                         else
                           (case getValidatedIntInput gradeInput 0 100 of
                              None \<Rightarrow> None
                            | Some grade \<Rightarrow>
                                Some (assignedCourses
                                        [k := snd (addGrade studentEmail grade
                                                     (assignedCourses ! k))], s))))"

definition Teacher_addGrade ::
  "user \<Rightarrow> int option list \<Rightarrow> string list \<Rightarrow> int option list \<Rightarrow> system \<Rightarrow> system option" where
  "Teacher_addGrade self indexInput emailInput gradeInput s =
     map_option snd (Teacher_addGrade_local self indexInput emailInput gradeInput s)"

definition Teacher_addContent_local ::
  "user \<Rightarrow> int option list \<Rightarrow> string \<Rightarrow> system \<Rightarrow> (course list \<times> system) option" where
  "Teacher_addContent_local self indexInput content s =
     (if getCourses (lms s) = [] then Some ([], s)
      else
        let assignedCourses = assigned_courses self (getCourses (lms s))
        in if assignedCourses = [] then Some (assignedCourses, s)
           else
             case getValidatedIntInput indexInput 1 (size_to_int (length assignedCourses)) of
               None \<Rightarrow> None
             | Some index \<Rightarrow>
                 let k = nat (index - 1)
                 in Some (assignedCourses
                            [k := snd (addContent content (assignedCourses ! k))], s))"

definition Teacher_addContent ::
  "user \<Rightarrow> int option list \<Rightarrow> string \<Rightarrow> system \<Rightarrow> system option" where
  "Teacher_addContent self indexInput content s =
     map_option snd (Teacher_addContent_local self indexInput content s)"

section \<open>Bootstrap\<close>

text \<open>
  The first statements of \<^verbatim>\<open>main\<close>, up to the login loop. An exception of a
  constructor or of \<^verbatim>\<open>addContent\<close> ends the program with a fatal error.
\<close>

definition then_call ::
  "error + course \<Rightarrow> (course \<Rightarrow> error option \<times> course) \<Rightarrow> error + course" where
  "then_call r method =
     (case r of
        Inl e \<Rightarrow> Inl e
      | Inr c \<Rightarrow> (case fst (method c) of Some e \<Rightarrow> Inl e | None \<Rightarrow> Inr (snd (method c))))"

definition main_bootstrap :: "error + system" where
  "main_bootstrap =
     (case then_call (then_call (Course ''Mathematics'' ''teacher1@example.com'')
                        (addContent ''Introduction to Algebra''))
             (addContent ''Advanced Calculus'') of
        Inl e \<Rightarrow> Inl e
      | Inr course1 \<Rightarrow>
          (case then_call (then_call (Course ''Physics'' ''teacher2@example.com'')
                             (addContent ''Newton's Laws''))
                  (addContent ''Thermodynamics'') of
             Inl e \<Rightarrow> Inl e
           | Inr course2 \<Rightarrow>
               Inr \<lparr>lms = addCourse course2 (addCourse course1 \<lparr>courses = []\<rparr>),
                    users =
                      [\<lparr>role = Admin, username = ''admin1'',
                        email = ''admin1@example.com'', password = ''adminpass''\<rparr>,
                       \<lparr>role = Teacher, username = ''teacher1'',
                        email = ''teacher1@example.com'', password = ''teacherpass''\<rparr>,
                       \<lparr>role = Teacher, username = ''teacher2'',
                        email = ''teacher2@example.com'', password = ''teacherpass''\<rparr>]\<rparr>))"

text \<open>The process state when the login loop is first entered.\<close>

definition seed :: system where
  "seed = projr main_bootstrap"

text \<open>The state after the admin has enrolled the new student \<open>a@b.co\<close> in course 1.\<close>

definition seed_with_student :: system where
  "seed_with_student = the (Admin_enrollStudent [Some 1] [''a@b.co''] ''pw'' seed)"

section \<open>Facts about the scans and sizes\<close>

lemma find_char_None: "find_char ch xs = None \<longleftrightarrow> ch \<notin> set xs"
  by (induction xs) auto

lemma find_char_Some:
  "find_char ch xs = Some a \<Longrightarrow> a < length xs \<and> xs ! a = ch \<and> (\<forall>k<a. xs ! k \<noteq> ch)"
proof (induction xs arbitrary: a)
  case Nil
  then show ?case by simp
next
  case (Cons x xs)
  show ?case
  proof (cases "x = ch")
    case True
    with Cons.prems show ?thesis by simp
  next
    case False
    with Cons.prems obtain b where b: "find_char ch xs = Some b" "a = Suc b"
      by auto
    from Cons.IH [OF b(1)] False b(2) show ?thesis
      by (auto simp: nth_Cons split: nat.splits)
  qed
qed

lemma rfind_char_None: "rfind_char ch xs = None \<longleftrightarrow> ch \<notin> set xs"
  by (induction xs) (auto split: option.splits)

lemma rfind_char_Some:
  "rfind_char ch xs = Some d \<Longrightarrow>
     d < length xs \<and> xs ! d = ch \<and> (\<forall>k. d < k \<and> k < length xs \<longrightarrow> xs ! k \<noteq> ch)"
proof (induction xs arbitrary: d)
  case Nil
  then show ?case by simp
next
  case (Cons x xs)
  show ?case
  proof (cases "rfind_char ch xs")
    case None
    with Cons.prems have "x = ch" "d = 0"
      by (auto split: if_splits)
    moreover from None have "ch \<notin> set xs"
      by (simp add: rfind_char_None)
    ultimately show ?thesis
      by (auto simp: nth_Cons split: nat.splits)
  next
    case (Some b)
    with Cons.prems have d: "d = Suc b" by simp
    from Cons.IH [OF Some] d show ?thesis
      by (auto simp: nth_Cons split: nat.splits)
  qed
qed

lemma wrap_pred: "0 < n \<Longrightarrow> n < 2 ^ 64 \<Longrightarrow> (n + 2 ^ 64 - 1) mod 2 ^ 64 = n - (1::nat)"
proof -
  assume a: "0 < n" "n < 2 ^ 64"
  then have "n + 2 ^ 64 - 1 = (n - 1) + 2 ^ 64" by simp
  then have "(n + 2 ^ 64 - 1) mod 2 ^ 64 = (n - 1) mod 2 ^ 64"
    by (metis mod_add_self2)
  with a show ?thesis by simp
qed

lemma isValidEmail_cases:
  assumes "length e < 2 ^ 64"
  shows "isValidEmail e =
           (case find_char CHR ''@'' e of
              None \<Rightarrow> False
            | Some a \<Rightarrow>
                (case rfind_char CHR ''.'' e of
                   None \<Rightarrow> False
                 | Some d \<Rightarrow> a < d \<and> 0 < a \<and> d + 1 < length e))"
proof (cases "find_char CHR ''@'' e")
  case None
  then show ?thesis by (simp add: isValidEmail_def find_pos_def)
next
  case a: (Some a)
  show ?thesis
  proof (cases "rfind_char CHR ''.'' e")
    case None
    with a show ?thesis by (simp add: isValidEmail_def rfind_pos_def)
  next
    case d: (Some d)
    from find_char_Some [OF a] assms have a_lt: "a < length e" "a < 2 ^ 64 - 1"
      by auto
    from rfind_char_Some [OF d] assms have d_lt: "d < length e" "d < 2 ^ 64 - 1"
      by auto
    from d_lt assms have "(length e + 2 ^ 64 - 1) mod 2 ^ 64 = length e - 1"
      by (intro wrap_pred) auto
    with a d a_lt d_lt show ?thesis
      by (auto simp: isValidEmail_def find_pos_def rfind_pos_def npos_def Let_def)
  qed
qed


lemma list_ex_upt2:
  "list_ex (\<lambda>i. list_ex (\<lambda>j. P i j) [0..<n]) [0..<n] \<longleftrightarrow> (\<exists>i j. i < n \<and> j < n \<and> P i j)"
  unfolding list_ex_iff Bex_def by simp

lemma shape_isValidEmail_iff:
  "shape_isValidEmail e \<longleftrightarrow>
     (\<exists>i j. i < j \<and> j < length e \<and> e ! i = CHR ''@'' \<and> e ! j = CHR ''.'')
     \<and> e \<noteq> [] \<and> hd e \<noteq> CHR ''@'' \<and> last e \<noteq> CHR ''.''"
proof -
  have "(\<exists>i j. i < length e \<and> j < length e \<and> e ! i = CHR ''@'' \<and> i < j \<and> e ! j = CHR ''.'')
        \<longleftrightarrow> (\<exists>i j. i < j \<and> j < length e \<and> e ! i = CHR ''@'' \<and> e ! j = CHR ''.'')"
    by (meson less_trans)
  then show ?thesis
    unfolding shape_isValidEmail_def list_ex_upt2 by simp
qed

lemma spec_isValidEmail_iff:
  "spec_isValidEmail e \<longleftrightarrow>
     (\<exists>i j. 0 < i \<and> i < j \<and> j + 1 < length e \<and> e ! i = CHR ''@'' \<and> e ! j = CHR ''.'')"
proof -
  have "(\<exists>i j. i < length e \<and> j < length e \<and>
           e ! i = CHR ''@'' \<and> 0 < i \<and> i < j \<and> e ! j = CHR ''.'' \<and> j + 1 < length e)
        \<longleftrightarrow> (\<exists>i j. 0 < i \<and> i < j \<and> j + 1 < length e \<and> e ! i = CHR ''@'' \<and> e ! j = CHR ''.'')"
    by (meson less_trans add_lessD1)
  then show ?thesis
    unfolding spec_isValidEmail_def list_ex_upt2 by simp
qed

lemma isValidEmail_imp_shape:
  assumes len: "length e < 2 ^ 64" and v: "isValidEmail e"
  shows "shape_isValidEmail e"
proof -
  from v obtain a d where a: "find_char CHR ''@'' e = Some a"
    and d: "rfind_char CHR ''.'' e = Some d"
    and ord: "a < d" "0 < a" "d + 1 < length e"
    by (auto simp: isValidEmail_cases [OF len] split: option.splits)
  note fa = find_char_Some [OF a] and fd = rfind_char_Some [OF d]
  from ord have ne: "e \<noteq> []" by auto
  from fa ord have "e ! 0 \<noteq> CHR ''@''" by blast
  with ne have h: "hd e \<noteq> CHR ''@''" by (simp add: hd_conv_nth)
  from ord have "d < length e - 1 \<and> length e - 1 < length e" by auto
  with fd have "e ! (length e - 1) \<noteq> CHR ''.''" by blast
  with ne have l: "last e \<noteq> CHR ''.''" by (simp add: last_conv_nth)
  from fa fd ord ne h l show ?thesis
    unfolding shape_isValidEmail_iff by blast
qed

lemma shape_imp_isValidEmail:
  assumes len: "length e < 2 ^ 64" and s: "shape_isValidEmail e"
  shows "isValidEmail e"
proof -
  from s obtain i j where ij: "i < j" "j < length e" "e ! i = CHR ''@''" "e ! j = CHR ''.''"
    and ne: "e \<noteq> []" and h: "hd e \<noteq> CHR ''@''" and l: "last e \<noteq> CHR ''.''"
    unfolding shape_isValidEmail_iff by blast
  from ij have "CHR ''@'' \<in> set e" by (metis less_trans nth_mem)
  then obtain a where a: "find_char CHR ''@'' e = Some a"
    using find_char_None [of "CHR ''@''" e] by (cases "find_char CHR ''@'' e") auto
  from ij have "CHR ''.'' \<in> set e" by (metis nth_mem)
  then obtain d where d: "rfind_char CHR ''.'' e = Some d"
    using rfind_char_None [of "CHR ''.''" e] by (cases "rfind_char CHR ''.'' e") auto
  note fa = find_char_Some [OF a] and fd = rfind_char_Some [OF d]
  from fa ij have ai: "a \<le> i" by (meson not_le)
  from fd ij have jd: "j \<le> d" by (meson not_le)
  from fa h ne have a0: "0 < a" by (cases a) (auto simp: hd_conv_nth)
  from fd l ne have "d \<noteq> length e - 1" by (auto simp: last_conv_nth)
  with fd have dl: "d + 1 < length e" by auto
  from ai jd ij a0 dl a d show ?thesis
    by (simp add: isValidEmail_cases [OF len])
qed

lemma size_to_int_small: "n < 2 ^ 31 \<Longrightarrow> size_to_int n = int n"
proof -
  assume a: "n < 2 ^ 31"
  then have "int n < 2 ^ 31" by (metis of_nat_less_iff of_nat_numeral of_nat_power)
  then have b: "int n < 2 ^ 32" by simp
  have "int n mod 2 ^ 32 = int n"
    by (rule mod_pos_pos_trivial) (use b in simp_all)
  with \<open>int n < 2 ^ 31\<close> show ?thesis
    by (simp add: size_to_int_def Let_def)
qed

lemma size_to_int_le: "size_to_int n \<le> int n"
proof -
  have "int n mod 2 ^ 32 \<le> int n"
    by (rule zmod_le_nonneg_dividend) simp
  then show ?thesis
    unfolding size_to_int_def Let_def by (simp split: if_splits)
qed

lemma isValidIndex_in_range:
  "isValidIndex i (size_to_int n) \<Longrightarrow> 0 \<le> i \<and> nat i < n"
  using size_to_int_le [of n] unfolding isValidIndex_def by linarith

lemma out_of_range_invalid:
  "i < 0 \<or> int n \<le> i \<Longrightarrow> \<not> isValidIndex i (size_to_int n)"
  using size_to_int_le [of n] unfolding isValidIndex_def by linarith

lemma already_enrolled_iff: "already_enrolled xs e \<longleftrightarrow> e \<in> set xs"
  by (induction xs) simp_all

lemma student_found_iff: "student_found xs e \<longleftrightarrow> e \<in> set xs"
  by (induction xs) simp_all

lemma email_registered_iff: "email_registered us e \<longleftrightarrow> e \<in> set (map email us)"
  by (induction us) simp_all

lemma teacher_assigned_iff:
  "teacher_assigned cs t \<longleftrightarrow> t \<in> set (map teacherEmail cs)"
  by (induction cs) (simp_all add: getTeacherEmail_def)

lemma erase_first_eq:
  "erase_first xs e = (if e \<in> set xs then Some (remove1 e xs) else None)"
  by (induction xs) simp_all

lemma distinct_erase: "distinct xs \<Longrightarrow> distinct (erase i xs)"
proof -
  assume d: "distinct xs"
  have "set (take i xs) \<inter> set (drop (Suc i) xs) = {}"
    by (rule set_take_disj_set_drop_if_distinct [OF d]) simp
  with d show ?thesis
    unfolding erase_def distinct_append by simp
qed


lemma enrollStudent_eq:
  "enrollStudent e c =
     (if \<not> isValidEmail e then (Some (ValidationException ''Invalid student email''), c)
      else if e \<in> set (enrolledStudents c)
      then (Some (ValidationException ''Student already enrolled''), c)
      else (None, c\<lparr>enrolledStudents := enrolledStudents c @ [e]\<rparr>))"
  by (simp add: enrollStudent_def already_enrolled_iff)

lemma removeStudent_eq:
  "removeStudent e c =
     (if e \<in> set (enrolledStudents c)
      then (None, c\<lparr>enrolledStudents := remove1 e (enrolledStudents c)\<rparr>)
      else (Some (ValidationException ''Student not found''), c))"
  by (simp add: removeStudent_def erase_first_eq)

lemma course_call_distinct:
  "distinct (enrolledStudents c) \<Longrightarrow> distinct (enrolledStudents (snd (course_call call c)))"
  by (cases call)
     (simp_all add: addContent_def removeContent_def addGrade_def enrollStudent_eq
        removeStudent_eq)

lemma course_calls_distinct:
  "distinct (enrolledStudents c) \<Longrightarrow> distinct (enrolledStudents (course_calls calls c))"
  by (induction calls arbitrary: c) (simp_all add: course_call_distinct)

lemma Course_fresh:
  "Course name teacher = Inr c \<Longrightarrow>
     courseName c = name \<and> teacherEmail c = teacher \<and>
     contents c = [] \<and> grades c = [] \<and> enrolledStudents c = []"
  by (auto simp: Course_def split: if_splits)

lemma course_call_frame:
  "courseName (snd (course_call call c)) = courseName c \<and>
   teacherEmail (snd (course_call call c)) = teacherEmail c"
  by (cases call)
     (simp_all add: addContent_def removeContent_def addGrade_def enrollStudent_eq
        removeStudent_eq)

lemma course_calls_frame:
  "courseName (course_calls calls c) = courseName c \<and>
   teacherEmail (course_calls calls c) = teacherEmail c"
  by (induction calls arbitrary: c) (simp_all add: course_call_frame)


lemma isValidGrade_iff: "isValidGrade g \<longleftrightarrow> \<not> (g < 0 \<or> 100 < g)"
  by (auto simp: isValidGrade_def)

lemma addGrade_eq:
  "addGrade e g c =
     (if \<not> isValidEmail e then (Some (ValidationException ''Invalid student email''), c)
      else if g < 0 \<or> 100 < g then (Some (ValidationException ''Invalid grade''), c)
      else (None, c\<lparr>grades := grades c @ [(e, g)]\<rparr>))"
  by (simp add: addGrade_def isValidGrade_iff)

lemma valid_a_b_co: "isValidEmail ''a@b.co''"
  by (simp add: isValidEmail_cases)

lemma invalid_nobody: "\<not> isValidEmail ''nobody''"
  by (simp add: isValidEmail_cases)

section \<open>The e-mail rule\<close>

text \<open>
  C4, as amended. For every string of a length a \<^verbatim>\<open>size_t\<close> can hold,
  \<^verbatim>\<open>isValidEmail\<close> is true exactly when the string has an \<open>'@'\<close> before a later
  \<open>'.'\<close>, does not begin with \<open>'@'\<close> and does not end with \<open>'.'\<close>: the position
  tested against 0 is that of the first \<open>'@'\<close>, and the position tested against the
  end is that of the last \<open>'.'\<close>.
\<close>

theorem isValidEmail_shape:
  assumes "length e < 2 ^ 64"
  shows "isValidEmail e \<longleftrightarrow> shape_isValidEmail e"
  using assms isValidEmail_imp_shape shape_imp_isValidEmail by blast

theorem isValidEmail_shape_witness:
  "length ''a@b.co'' < (2::nat) ^ 64 \<and> isValidEmail ''a@b.co'' \<and> shape_isValidEmail ''a@b.co''
   \<and> length ''a@b.c.'' < (2::nat) ^ 64 \<and> \<not> shape_isValidEmail ''a@b.c.''
   \<and> \<not> isValidEmail ''a@b.c.''"
proof -
  have l1: "length ''a@b.co'' < (2::nat) ^ 64" and l2: "length ''a@b.c.'' < (2::nat) ^ 64"
    by simp_all
  have v: "isValidEmail ''a@b.co''"
    by (simp add: isValidEmail_cases)
  have n: "\<not> shape_isValidEmail ''a@b.c.''"
    by (simp add: shape_isValidEmail_def)
  from isValidEmail_shape [OF l1] v have s: "shape_isValidEmail ''a@b.co''" by blast
  from isValidEmail_shape [OF l2] n have i: "\<not> isValidEmail ''a@b.c.''" by blast
  from l1 v s l2 n i show ?thesis by (intro conjI)
qed

text \<open>
  C4, as stated, fails: in \<open>@a@b.c\<close> the second \<open>'@'\<close> is at position 2, the
  \<open>'.'\<close> after it is followed by a character, and the validator rejects the string
  because its first \<open>'@'\<close> is at position 0.
\<close>

theorem isValidEmail_spec_counterexample:
  "spec_isValidEmail ''@a@b.c'' \<and> \<not> isValidEmail ''@a@b.c''"
  by (simp add: spec_isValidEmail_def upt_rec isValidEmail_cases)

text \<open>
  The same at the other end: in \<open>a@b.c.\<close> the first \<open>'.'\<close> has characters after
  it, and the validator rejects the string because its last \<open>'.'\<close> is its last
  character.
\<close>

lemma isValidEmail_trailing_dot:
  "spec_isValidEmail ''a@b.c.'' \<and> \<not> isValidEmail ''a@b.c.''"
  by (simp add: spec_isValidEmail_def upt_rec isValidEmail_cases)

text \<open>The direction of the stated rule that does hold.\<close>

lemma isValidEmail_imp_spec:
  assumes "length e < 2 ^ 64" "isValidEmail e"
  shows "spec_isValidEmail e"
proof -
  from assms obtain a d where a: "find_char CHR ''@'' e = Some a"
    and d: "rfind_char CHR ''.'' e = Some d"
    and ord: "a < d" "0 < a" "d + 1 < length e"
    by (auto simp: isValidEmail_cases split: option.splits)
  note fa = find_char_Some [OF a] and fd = rfind_char_Some [OF d]
  from fa fd ord show ?thesis
    unfolding spec_isValidEmail_iff by blast
qed

section \<open>Enrolment\<close>

text \<open>
  C5. \<^verbatim>\<open>Course::enrollStudent\<close> throws, and then always a ValidationException, exactly
  when the e-mail is invalid or already enrolled, and leaves the course as it was; it
  appends the e-mail otherwise. Enrolling the same e-mail again after a successful
  enrolment throws and leaves the enrolment list, and so its size, unchanged. Every
  course method keeps the enrolment list free of duplicates, and so does every sequence
  of calls on a constructed course.
\<close>

theorem enrollStudent_contract:
  "((\<exists>msg. fst (enrollStudent e c) = Some (ValidationException msg)) \<longleftrightarrow>
      (\<not> isValidEmail e \<or> e \<in> set (enrolledStudents c)))
   \<and> (fst (enrollStudent e c) \<noteq> None \<longrightarrow>
        (\<exists>msg. fst (enrollStudent e c) = Some (ValidationException msg)) \<and>
        snd (enrollStudent e c) = c)
   \<and> (fst (enrollStudent e c) = None \<longrightarrow>
        snd (enrollStudent e c) = c\<lparr>enrolledStudents := enrolledStudents c @ [e]\<rparr> \<and>
        fst (enrollStudent e (snd (enrollStudent e c))) =
          Some (ValidationException ''Student already enrolled'') \<and>
        snd (enrollStudent e (snd (enrollStudent e c))) = snd (enrollStudent e c) \<and>
        length (enrolledStudents (snd (enrollStudent e (snd (enrollStudent e c))))) =
          length (enrolledStudents (snd (enrollStudent e c))))
   \<and> (distinct (enrolledStudents c) \<longrightarrow>
        distinct (enrolledStudents (snd (course_call call c))))
   \<and> (Course name teacher = Inr c0 \<longrightarrow>
        distinct (enrolledStudents (course_calls calls c0)))"
proof -
  have 1: "(\<exists>msg. fst (enrollStudent e c) = Some (ValidationException msg)) \<longleftrightarrow>
      (\<not> isValidEmail e \<or> e \<in> set (enrolledStudents c))"
    by (simp add: enrollStudent_eq)
  have 2: "fst (enrollStudent e c) \<noteq> None \<longrightarrow>
        (\<exists>msg. fst (enrollStudent e c) = Some (ValidationException msg)) \<and>
        snd (enrollStudent e c) = c"
    by (simp add: enrollStudent_eq)
  have 3: "fst (enrollStudent e c) = None \<longrightarrow>
        snd (enrollStudent e c) = c\<lparr>enrolledStudents := enrolledStudents c @ [e]\<rparr> \<and>
        fst (enrollStudent e (snd (enrollStudent e c))) =
          Some (ValidationException ''Student already enrolled'') \<and>
        snd (enrollStudent e (snd (enrollStudent e c))) = snd (enrollStudent e c) \<and>
        length (enrolledStudents (snd (enrollStudent e (snd (enrollStudent e c))))) =
          length (enrolledStudents (snd (enrollStudent e c)))"
    by (simp add: enrollStudent_eq)
  have 4: "distinct (enrolledStudents c) \<longrightarrow>
        distinct (enrolledStudents (snd (course_call call c)))"
    by (simp add: course_call_distinct)
  have 5: "Course name teacher = Inr c0 \<longrightarrow>
        distinct (enrolledStudents (course_calls calls c0))"
  proof
    assume "Course name teacher = Inr c0"
    then have "distinct (enrolledStudents c0)"
      by (simp add: Course_fresh)
    then show "distinct (enrolledStudents (course_calls calls c0))"
      by (rule course_calls_distinct)
  qed
  from 1 2 3 4 5 show ?thesis by (intro conjI)
qed

theorem enrollStudent_contract_witness:
  "Course ''Physics'' ''a@b.co'' =
     Inr \<lparr>courseName = ''Physics'', teacherEmail = ''a@b.co'', contents = [], grades = [],
          enrolledStudents = []\<rparr>
   \<and> fst (enrollStudent ''a@b.co''
        \<lparr>courseName = ''Physics'', teacherEmail = ''a@b.co'', contents = [], grades = [],
         enrolledStudents = []\<rparr>) = None
   \<and> snd (enrollStudent ''a@b.co''
        \<lparr>courseName = ''Physics'', teacherEmail = ''a@b.co'', contents = [], grades = [],
         enrolledStudents = []\<rparr>) =
        \<lparr>courseName = ''Physics'', teacherEmail = ''a@b.co'', contents = [], grades = [],
         enrolledStudents = [''a@b.co'']\<rparr>
   \<and> fst (enrollStudent ''a@b.co''
        \<lparr>courseName = ''Physics'', teacherEmail = ''a@b.co'', contents = [], grades = [],
         enrolledStudents = [''a@b.co'']\<rparr>) =
        Some (ValidationException ''Student already enrolled'')
   \<and> fst (enrollStudent ''nobody''
        \<lparr>courseName = ''Physics'', teacherEmail = ''a@b.co'', contents = [], grades = [],
         enrolledStudents = []\<rparr>) \<noteq> None
   \<and> distinct (enrolledStudents (course_calls
        [EnrollStudent ''a@b.co'', EnrollStudent ''a@b.co'', RemoveStudent ''a@b.co'']
        \<lparr>courseName = ''Physics'', teacherEmail = ''a@b.co'', contents = [], grades = [],
         enrolledStudents = []\<rparr>))"
proof -
  let ?c = "\<lparr>courseName = ''Physics'', teacherEmail = ''a@b.co'', contents = [], grades = [],
             enrolledStudents = []\<rparr>"
  have ctor: "Course ''Physics'' ''a@b.co'' = Inr ?c"
    by (simp add: Course_def isValidString_def valid_a_b_co)
  have ok: "fst (enrollStudent ''a@b.co'' ?c) = None"
    by (simp add: enrollStudent_eq valid_a_b_co)
  have bad: "\<not> isValidEmail ''nobody'' \<or> ''nobody'' \<in> set (enrolledStudents ?c)"
    by (simp add: invalid_nobody)
  note t = enrollStudent_contract [of "''a@b.co''" ?c "EnrollStudent ''a@b.co''"
      "''Physics''" "''a@b.co''" ?c
      "[EnrollStudent ''a@b.co'', EnrollStudent ''a@b.co'', RemoveStudent ''a@b.co'']"]
  note u = enrollStudent_contract [of "''nobody''" ?c "EnrollStudent ''a@b.co''"
      "''Physics''" "''a@b.co''" ?c "[]"]
  from t ok have s: "snd (enrollStudent ''a@b.co'' ?c) =
      ?c\<lparr>enrolledStudents := enrolledStudents ?c @ [''a@b.co'']\<rparr>"
    and again: "fst (enrollStudent ''a@b.co'' (snd (enrollStudent ''a@b.co'' ?c))) =
      Some (ValidationException ''Student already enrolled'')"
    by blast+
  from t ctor have d: "distinct (enrolledStudents (course_calls
      [EnrollStudent ''a@b.co'', EnrollStudent ''a@b.co'', RemoveStudent ''a@b.co''] ?c))"
    by blast
  from u bad have f: "fst (enrollStudent ''nobody'' ?c) \<noteq> None"
    by auto
  from s have s': "snd (enrollStudent ''a@b.co'' ?c) =
      \<lparr>courseName = ''Physics'', teacherEmail = ''a@b.co'', contents = [], grades = [],
       enrolledStudents = [''a@b.co'']\<rparr>"
    by simp
  from again s' have again': "fst (enrollStudent ''a@b.co''
      \<lparr>courseName = ''Physics'', teacherEmail = ''a@b.co'', contents = [], grades = [],
       enrolledStudents = [''a@b.co'']\<rparr>) =
      Some (ValidationException ''Student already enrolled'')"
    by simp
  from ctor ok s' again' f d show ?thesis by (intro conjI)
qed

section \<open>Grades\<close>

text \<open>
  C6. \<^verbatim>\<open>Course::addGrade\<close> throws, and then always a ValidationException, exactly when
  the e-mail is invalid or the grade is below 0 or above 100, and leaves the course as it
  was. Its outcome does not depend on the enrolment list. On success it appends the pair
  to the grades and changes nothing else, so \<^verbatim>\<open>getGrades\<close> has one more pair than
  before, the pair added, and the earlier pairs are kept. A grade of 150 is refused, and
  a grade of 85 for \<open>a@b.co\<close> is appended.
\<close>

theorem addGrade_contract:
  "((\<exists>msg. fst (addGrade e g c) = Some (ValidationException msg)) \<longleftrightarrow>
      (\<not> isValidEmail e \<or> g < 0 \<or> 100 < g))
   \<and> (fst (addGrade e g c) \<noteq> None \<longrightarrow>
        (\<exists>msg. fst (addGrade e g c) = Some (ValidationException msg)) \<and>
        snd (addGrade e g c) = c)
   \<and> (fst (addGrade e g c) = None \<longrightarrow>
        snd (addGrade e g c) = c\<lparr>grades := grades c @ [(e, g)]\<rparr> \<and>
        getGrades (snd (addGrade e g c)) = getGrades c @ [(e, g)] \<and>
        length (getGrades (snd (addGrade e g c))) = Suc (length (getGrades c)))
   \<and> fst (addGrade e g (c\<lparr>enrolledStudents := roster\<rparr>)) = fst (addGrade e g c)
   \<and> addGrade ''a@b.co'' 150 c = (Some (ValidationException ''Invalid grade''), c)
   \<and> fst (addGrade ''a@b.co'' 85 c) = None
   \<and> getGrades (snd (addGrade ''a@b.co'' 85 c)) = getGrades c @ [(''a@b.co'', 85)]"
proof -
  have 1: "(\<exists>msg. fst (addGrade e g c) = Some (ValidationException msg)) \<longleftrightarrow>
      (\<not> isValidEmail e \<or> g < 0 \<or> 100 < g)"
    by (simp add: addGrade_eq)
  have 2: "fst (addGrade e g c) \<noteq> None \<longrightarrow>
        (\<exists>msg. fst (addGrade e g c) = Some (ValidationException msg)) \<and>
        snd (addGrade e g c) = c"
    by (simp add: addGrade_eq)
  have 3: "fst (addGrade e g c) = None \<longrightarrow>
        snd (addGrade e g c) = c\<lparr>grades := grades c @ [(e, g)]\<rparr> \<and>
        getGrades (snd (addGrade e g c)) = getGrades c @ [(e, g)] \<and>
        length (getGrades (snd (addGrade e g c))) = Suc (length (getGrades c))"
    by (simp add: addGrade_eq getGrades_def)
  have 4: "fst (addGrade e g (c\<lparr>enrolledStudents := roster\<rparr>)) = fst (addGrade e g c)"
    by (simp add: addGrade_eq)
  have 5: "addGrade ''a@b.co'' 150 c = (Some (ValidationException ''Invalid grade''), c)"
    by (simp add: addGrade_eq valid_a_b_co)
  have 6: "fst (addGrade ''a@b.co'' 85 c) = None"
    by (simp add: addGrade_eq valid_a_b_co)
  have 7: "getGrades (snd (addGrade ''a@b.co'' 85 c)) = getGrades c @ [(''a@b.co'', 85)]"
    by (simp add: addGrade_eq valid_a_b_co getGrades_def)
  from 1 2 3 4 5 6 7 show ?thesis by (intro conjI)
qed

theorem addGrade_contract_witness:
  "fst (addGrade ''a@b.co'' 101
      \<lparr>courseName = ''Physics'', teacherEmail = ''a@b.co'', contents = [],
       grades = [(''a@b.co'', 70)], enrolledStudents = []\<rparr>) \<noteq> None
   \<and> snd (addGrade ''a@b.co'' 101
      \<lparr>courseName = ''Physics'', teacherEmail = ''a@b.co'', contents = [],
       grades = [(''a@b.co'', 70)], enrolledStudents = []\<rparr>) =
      \<lparr>courseName = ''Physics'', teacherEmail = ''a@b.co'', contents = [],
       grades = [(''a@b.co'', 70)], enrolledStudents = []\<rparr>
   \<and> fst (addGrade ''a@b.co'' 100
      \<lparr>courseName = ''Physics'', teacherEmail = ''a@b.co'', contents = [],
       grades = [(''a@b.co'', 70)], enrolledStudents = []\<rparr>) = None
   \<and> getGrades (snd (addGrade ''a@b.co'' 100
      \<lparr>courseName = ''Physics'', teacherEmail = ''a@b.co'', contents = [],
       grades = [(''a@b.co'', 70)], enrolledStudents = []\<rparr>)) =
      [(''a@b.co'', 70), (''a@b.co'', 100)]"
proof -
  let ?c = "\<lparr>courseName = ''Physics'', teacherEmail = ''a@b.co'', contents = [],
             grades = [(''a@b.co'', 70)], enrolledStudents = []\<rparr>"
  note hi = addGrade_contract [of "''a@b.co''" 101 ?c "[]"]
  note ok = addGrade_contract [of "''a@b.co''" 100 ?c "[]"]
  have bad: "\<not> isValidEmail ''a@b.co'' \<or> (101::int) < 0 \<or> (100::int) < 101"
    by simp
  from hi bad have f: "fst (addGrade ''a@b.co'' 101 ?c) \<noteq> None"
    by auto
  with hi have u: "snd (addGrade ''a@b.co'' 101 ?c) = ?c"
    by blast
  have good: "\<not> (\<not> isValidEmail ''a@b.co'' \<or> (100::int) < 0 \<or> (100::int) < 100)"
    by (simp add: valid_a_b_co)
  from ok good have n: "fst (addGrade ''a@b.co'' 100 ?c) = None"
    by (metis option.exhaust)
  with ok have "getGrades (snd (addGrade ''a@b.co'' 100 ?c)) = getGrades ?c @ [(''a@b.co'', 100)]"
    by blast
  then have g: "getGrades (snd (addGrade ''a@b.co'' 100 ?c)) =
      [(''a@b.co'', 70), (''a@b.co'', 100)]"
    by (simp add: getGrades_def)
  from f u n g show ?thesis by (intro conjI)
qed

section \<open>Index-addressed operations\<close>

text \<open>
  C7. An index that is negative or not below the current size makes
  \<^verbatim>\<open>Course::removeContent\<close> and \<^verbatim>\<open>LMSManager::removeCourse\<close> throw
  InvalidCourseIndexException and leave the course, respectively the registry, exactly
  as it was; \<^verbatim>\<open>LMSManager::getCourse\<close> throws the same exception and yields no
  reference.
\<close>

theorem out_of_range_index_rejected:
  "(index < 0 \<or> int (length (contents c)) \<le> index \<longrightarrow>
      removeContent index c = (Some InvalidCourseIndexException, c))
   \<and> (index < 0 \<or> int (length (courses m)) \<le> index \<longrightarrow>
      removeCourse index m = (Some InvalidCourseIndexException, m) \<and>
      getCourse index m = Inl InvalidCourseIndexException)"
  by (simp add: removeContent_def removeCourse_def getCourse_def out_of_range_invalid)

theorem out_of_range_index_rejected_witness:
  "removeContent 2
      \<lparr>courseName = ''Physics'', teacherEmail = ''a@b.co'',
       contents = [''Newton'', ''Heat''], grades = [], enrolledStudents = []\<rparr> =
     (Some InvalidCourseIndexException,
      \<lparr>courseName = ''Physics'', teacherEmail = ''a@b.co'',
       contents = [''Newton'', ''Heat''], grades = [], enrolledStudents = []\<rparr>)
   \<and> removeCourse (- 1) \<lparr>courses = []\<rparr> = (Some InvalidCourseIndexException, \<lparr>courses = []\<rparr>)
   \<and> getCourse (- 1) \<lparr>courses = []\<rparr> = Inl InvalidCourseIndexException"
proof -
  let ?c = "\<lparr>courseName = ''Physics'', teacherEmail = ''a@b.co'',
             contents = [''Newton'', ''Heat''], grades = [], enrolledStudents = []\<rparr>"
  have a: "(2::int) < 0 \<or> int (length (contents ?c)) \<le> 2"
    by simp
  have b: "(- 1::int) < 0 \<or> int (length (courses \<lparr>courses = []\<rparr>)) \<le> - 1"
    by simp
  from out_of_range_index_rejected [of 2 ?c "\<lparr>courses = []\<rparr>"] a
  have 1: "removeContent 2 ?c = (Some InvalidCourseIndexException, ?c)"
    by blast
  from out_of_range_index_rejected [of "- 1" ?c "\<lparr>courses = []\<rparr>"] b
  have 2: "removeCourse (- 1) \<lparr>courses = []\<rparr> = (Some InvalidCourseIndexException, \<lparr>courses = []\<rparr>)"
    and 3: "getCourse (- 1) \<lparr>courses = []\<rparr> = Inl InvalidCourseIndexException"
    by blast+
  from 1 2 3 show ?thesis by (intro conjI)
qed

section \<open>Removing a student\<close>

text \<open>
  C8. \<^verbatim>\<open>Course::removeStudent\<close> throws ValidationException "Student not found" exactly
  when the e-mail is not in the enrolment list, and it throws nothing else; the course
  is then unchanged. Otherwise it erases the first occurrence of the e-mail and changes
  nothing else. The list of a constructed course has no duplicates, so the e-mail is not
  enrolled afterwards.
\<close>

theorem removeStudent_contract:
  "(fst (removeStudent e c) = Some (ValidationException ''Student not found'') \<longleftrightarrow>
      e \<notin> set (enrolledStudents c))
   \<and> (fst (removeStudent e c) \<noteq> None \<longrightarrow>
        fst (removeStudent e c) = Some (ValidationException ''Student not found'') \<and>
        snd (removeStudent e c) = c)
   \<and> (e \<in> set (enrolledStudents c) \<longrightarrow>
        fst (removeStudent e c) = None \<and>
        snd (removeStudent e c) = c\<lparr>enrolledStudents := remove1 e (enrolledStudents c)\<rparr>)
   \<and> (distinct (enrolledStudents c) \<longrightarrow>
        set (enrolledStudents (snd (removeStudent e c))) = set (enrolledStudents c) - {e})
   \<and> (Course name teacher = Inr c0 \<longrightarrow>
        e \<notin> set (enrolledStudents (snd (removeStudent e (course_calls calls c0)))))"
proof -
  have 1: "fst (removeStudent e c) = Some (ValidationException ''Student not found'') \<longleftrightarrow>
      e \<notin> set (enrolledStudents c)"
    by (simp add: removeStudent_eq)
  have 2: "fst (removeStudent e c) \<noteq> None \<longrightarrow>
        fst (removeStudent e c) = Some (ValidationException ''Student not found'') \<and>
        snd (removeStudent e c) = c"
    by (simp add: removeStudent_eq)
  have 3: "e \<in> set (enrolledStudents c) \<longrightarrow>
        fst (removeStudent e c) = None \<and>
        snd (removeStudent e c) = c\<lparr>enrolledStudents := remove1 e (enrolledStudents c)\<rparr>"
    by (simp add: removeStudent_eq)
  have 4: "set (enrolledStudents (snd (removeStudent e k))) = set (enrolledStudents k) - {e}"
    if "distinct (enrolledStudents k)" for k :: course
    using that by (simp add: removeStudent_eq set_remove1_eq)
  have 5: "Course name teacher = Inr c0 \<longrightarrow>
        e \<notin> set (enrolledStudents (snd (removeStudent e (course_calls calls c0))))"
  proof
    assume "Course name teacher = Inr c0"
    then have "distinct (enrolledStudents c0)"
      by (simp add: Course_fresh)
    then have "distinct (enrolledStudents (course_calls calls c0))"
      by (rule course_calls_distinct)
    from 4 [OF this]
    show "e \<notin> set (enrolledStudents (snd (removeStudent e (course_calls calls c0))))"
      by simp
  qed
  from 4 have d4: "distinct (enrolledStudents c) \<longrightarrow>
        set (enrolledStudents (snd (removeStudent e c))) = set (enrolledStudents c) - {e}"
    by blast
  from 1 2 3 d4 5 show ?thesis by (intro conjI)
qed

theorem removeStudent_contract_witness:
  "fst (removeStudent ''a@b.co''
      \<lparr>courseName = ''Physics'', teacherEmail = ''t@x.io'', contents = [], grades = [],
       enrolledStudents = [''c@d.eu'', ''a@b.co'']\<rparr>) = None
   \<and> snd (removeStudent ''a@b.co''
      \<lparr>courseName = ''Physics'', teacherEmail = ''t@x.io'', contents = [], grades = [],
       enrolledStudents = [''c@d.eu'', ''a@b.co'']\<rparr>) =
      \<lparr>courseName = ''Physics'', teacherEmail = ''t@x.io'', contents = [], grades = [],
       enrolledStudents = [''c@d.eu'']\<rparr>
   \<and> removeStudent ''a@b.co''
      \<lparr>courseName = ''Physics'', teacherEmail = ''t@x.io'', contents = [], grades = [],
       enrolledStudents = [''c@d.eu'']\<rparr> =
      (Some (ValidationException ''Student not found''),
       \<lparr>courseName = ''Physics'', teacherEmail = ''t@x.io'', contents = [], grades = [],
        enrolledStudents = [''c@d.eu'']\<rparr>)
   \<and> distinct [''c@d.eu'', ''a@b.co'']
   \<and> set (enrolledStudents (snd (removeStudent ''a@b.co''
      \<lparr>courseName = ''Physics'', teacherEmail = ''t@x.io'', contents = [], grades = [],
       enrolledStudents = [''c@d.eu'', ''a@b.co'']\<rparr>))) = {''c@d.eu''}"
proof -
  let ?c = "\<lparr>courseName = ''Physics'', teacherEmail = ''t@x.io'', contents = [], grades = [],
             enrolledStudents = [''c@d.eu'', ''a@b.co'']\<rparr>"
  let ?d = "\<lparr>courseName = ''Physics'', teacherEmail = ''t@x.io'', contents = [], grades = [],
             enrolledStudents = [''c@d.eu'']\<rparr>"
  note t = removeStudent_contract [of "''a@b.co''" ?c "''Physics''" "''t@x.io''" ?c "[]"]
  note u = removeStudent_contract [of "''a@b.co''" ?d "''Physics''" "''t@x.io''" ?d "[]"]
  have mem: "''a@b.co'' \<in> set (enrolledStudents ?c)" by simp
  have nmem: "''a@b.co'' \<notin> set (enrolledStudents ?d)" by simp
  have dist: "distinct [''c@d.eu'', ''a@b.co'']" by simp
  then have dist': "distinct (enrolledStudents ?c)" by simp
  from t mem have 1: "fst (removeStudent ''a@b.co'' ?c) = None"
    and "snd (removeStudent ''a@b.co'' ?c) =
           ?c\<lparr>enrolledStudents := remove1 ''a@b.co'' (enrolledStudents ?c)\<rparr>"
    by blast+
  then have 2: "snd (removeStudent ''a@b.co'' ?c) = ?d" by simp
  from u nmem have f: "fst (removeStudent ''a@b.co'' ?d) =
      Some (ValidationException ''Student not found'')"
    by blast
  with u have "snd (removeStudent ''a@b.co'' ?d) = ?d" by simp
  with f have 3: "removeStudent ''a@b.co'' ?d =
      (Some (ValidationException ''Student not found''), ?d)"
    by (simp add: prod_eq_iff)
  from t dist' have "set (enrolledStudents (snd (removeStudent ''a@b.co'' ?c))) =
      set (enrolledStudents ?c) - {''a@b.co''}"
    by blast
  moreover have "set (enrolledStudents ?c) - {''a@b.co''} = {''c@d.eu''}"
    by (simp add: insert_Diff_if)
  ultimately have 4: "set (enrolledStudents (snd (removeStudent ''a@b.co'' ?c))) = {''c@d.eu''}"
    by (rule trans)
  from 1 2 3 dist 4 show ?thesis by (intro conjI)
qed

section \<open>Name and teacher of a course\<close>

text \<open>
  C10. No method of \<^verbatim>\<open>Course\<close> assigns the name or the teacher e-mail: after any call
  of \<^verbatim>\<open>addContent\<close>, \<^verbatim>\<open>removeContent\<close>, \<^verbatim>\<open>addGrade\<close>, \<^verbatim>\<open>enrollStudent\<close> or
  \<^verbatim>\<open>removeStudent\<close>, whether it returns or throws, \<^verbatim>\<open>getCourseName\<close> and
  \<^verbatim>\<open>getTeacherEmail\<close> return what they returned before, and after any sequence of
  such calls on a constructed course they return the constructor's arguments.
\<close>

theorem course_name_teacher_immutable:
  "getCourseName (snd (course_call call c)) = getCourseName c
   \<and> getTeacherEmail (snd (course_call call c)) = getTeacherEmail c
   \<and> (Course name teacher = Inr c0 \<longrightarrow>
        getCourseName (course_calls calls c0) = name \<and>
        getTeacherEmail (course_calls calls c0) = teacher)"
  using Course_fresh [of name teacher c0]
  by (simp add: getCourseName_def getTeacherEmail_def course_call_frame course_calls_frame)

theorem course_name_teacher_immutable_witness:
  "Course ''Physics'' ''t@x.io'' =
     Inr \<lparr>courseName = ''Physics'', teacherEmail = ''t@x.io'', contents = [], grades = [],
          enrolledStudents = []\<rparr>
   \<and> getCourseName (course_calls
        [AddContent ''Heat'', RemoveContent 5, AddGrade ''a@b.co'' 150,
         EnrollStudent ''a@b.co'', RemoveStudent ''a@b.co'', RemoveStudent ''a@b.co'']
        \<lparr>courseName = ''Physics'', teacherEmail = ''t@x.io'', contents = [], grades = [],
         enrolledStudents = []\<rparr>) = ''Physics''
   \<and> getTeacherEmail (course_calls
        [AddContent ''Heat'', RemoveContent 5, AddGrade ''a@b.co'' 150,
         EnrollStudent ''a@b.co'', RemoveStudent ''a@b.co'', RemoveStudent ''a@b.co'']
        \<lparr>courseName = ''Physics'', teacherEmail = ''t@x.io'', contents = [], grades = [],
         enrolledStudents = []\<rparr>) = ''t@x.io''"
proof -
  let ?c = "\<lparr>courseName = ''Physics'', teacherEmail = ''t@x.io'', contents = [], grades = [],
             enrolledStudents = []\<rparr>"
  have v: "isValidEmail ''t@x.io''"
    by (simp add: isValidEmail_cases)
  then have ctor: "Course ''Physics'' ''t@x.io'' = Inr ?c"
    by (simp add: Course_def isValidString_def)
  from course_name_teacher_immutable [of "AddContent ''Heat''" ?c "''Physics''" "''t@x.io''" ?c
      "[AddContent ''Heat'', RemoveContent 5, AddGrade ''a@b.co'' 150,
        EnrollStudent ''a@b.co'', RemoveStudent ''a@b.co'', RemoveStudent ''a@b.co'']"] ctor
  show ?thesis by blast
qed

section \<open>The seeded registry\<close>

lemma seed_teacher_emails_valid:
  "isValidEmail ''teacher1@example.com''" "isValidEmail ''teacher2@example.com''"
  by (simp_all add: isValidEmail_cases)

lemma main_bootstrap_eq:
  "main_bootstrap =
     Inr \<lparr>lms = \<lparr>courses =
            [\<lparr>courseName = ''Mathematics'', teacherEmail = ''teacher1@example.com'',
              contents = [''Introduction to Algebra'', ''Advanced Calculus''],
              grades = [], enrolledStudents = []\<rparr>,
             \<lparr>courseName = ''Physics'', teacherEmail = ''teacher2@example.com'',
              contents = [''Newton's Laws'', ''Thermodynamics''],
              grades = [], enrolledStudents = []\<rparr>]\<rparr>,
          users =
            [\<lparr>role = Admin, username = ''admin1'',
              email = ''admin1@example.com'', password = ''adminpass''\<rparr>,
             \<lparr>role = Teacher, username = ''teacher1'',
              email = ''teacher1@example.com'', password = ''teacherpass''\<rparr>,
             \<lparr>role = Teacher, username = ''teacher2'',
              email = ''teacher2@example.com'', password = ''teacherpass''\<rparr>]\<rparr>"
  by (simp add: main_bootstrap_def then_call_def Course_def addContent_def addCourse_def
      isValidString_def seed_teacher_emails_valid)

lemma seed_eq:
  "seed =
     \<lparr>lms = \<lparr>courses =
        [\<lparr>courseName = ''Mathematics'', teacherEmail = ''teacher1@example.com'',
          contents = [''Introduction to Algebra'', ''Advanced Calculus''],
          grades = [], enrolledStudents = []\<rparr>,
         \<lparr>courseName = ''Physics'', teacherEmail = ''teacher2@example.com'',
          contents = [''Newton's Laws'', ''Thermodynamics''],
          grades = [], enrolledStudents = []\<rparr>]\<rparr>,
      users =
        [\<lparr>role = Admin, username = ''admin1'',
          email = ''admin1@example.com'', password = ''adminpass''\<rparr>,
         \<lparr>role = Teacher, username = ''teacher1'',
          email = ''teacher1@example.com'', password = ''teacherpass''\<rparr>,
         \<lparr>role = Teacher, username = ''teacher2'',
          email = ''teacher2@example.com'', password = ''teacherpass''\<rparr>]\<rparr>"
  by (simp add: seed_def main_bootstrap_eq)

lemma size_to_int_numerals [simp]:
  "size_to_int 0 = 0" "size_to_int (Suc 0) = 1" "size_to_int (Suc (Suc 0)) = 2"
  "size_to_int (Suc (Suc (Suc 0))) = 3"
  by (simp_all add: size_to_int_def)

lemma seed_with_student_eq:
  "Admin_enrollStudent [Some 1] [''a@b.co''] ''pw'' seed = Some seed_with_student"
  "seed_with_student =
     \<lparr>lms = \<lparr>courses =
        [\<lparr>courseName = ''Mathematics'', teacherEmail = ''teacher1@example.com'',
          contents = [''Introduction to Algebra'', ''Advanced Calculus''],
          grades = [], enrolledStudents = [''a@b.co'']\<rparr>,
         \<lparr>courseName = ''Physics'', teacherEmail = ''teacher2@example.com'',
          contents = [''Newton's Laws'', ''Thermodynamics''],
          grades = [], enrolledStudents = []\<rparr>]\<rparr>,
      users =
        [\<lparr>role = Admin, username = ''admin1'',
          email = ''admin1@example.com'', password = ''adminpass''\<rparr>,
         \<lparr>role = Teacher, username = ''teacher1'',
          email = ''teacher1@example.com'', password = ''teacherpass''\<rparr>,
         \<lparr>role = Teacher, username = ''teacher2'',
          email = ''teacher2@example.com'', password = ''teacherpass''\<rparr>,
         \<lparr>role = Student, username = ''a'',
          email = ''a@b.co'', password = ''pw''\<rparr>]\<rparr>"
  by (simp_all add: seed_with_student_def seed_eq Admin_enrollStudent_def getCourses_def
      getCourse_def isValidIndex_def call_through_def enrollStudent_eq valid_a_b_co
      find_pos_def)

text \<open>
  C9. The bootstrap of \<^verbatim>\<open>main\<close> succeeds; the registry then holds exactly the courses
  "Mathematics" and "Physics", in this order, and the user list one admin and two
  teachers. \<^verbatim>\<open>removeCourse(0)\<close> returns and leaves the one course "Physics"; a second
  \<^verbatim>\<open>removeCourse(0)\<close> returns and leaves no course; a third throws
  InvalidCourseIndexException and the registry stays empty.
\<close>

theorem seed_delete_scenario:
  "main_bootstrap = Inr seed
   \<and> map getCourseName (getCourses (lms seed)) = [''Mathematics'', ''Physics'']
   \<and> map role (users seed) = [Admin, Teacher, Teacher]
   \<and> fst (removeCourse 0 (lms seed)) = None
   \<and> map getCourseName (getCourses (snd (removeCourse 0 (lms seed)))) = [''Physics'']
   \<and> fst (removeCourse 0 (snd (removeCourse 0 (lms seed)))) = None
   \<and> getCourses (snd (removeCourse 0 (snd (removeCourse 0 (lms seed))))) = []
   \<and> removeCourse 0 (snd (removeCourse 0 (snd (removeCourse 0 (lms seed))))) =
       (Some InvalidCourseIndexException,
        snd (removeCourse 0 (snd (removeCourse 0 (lms seed)))))"
  by (simp add: main_bootstrap_eq seed_eq getCourses_def getCourseName_def removeCourse_def
      isValidIndex_def erase_def)

section \<open>References into the registry and local copies\<close>

lemma getValidatedIntInput_range:
  "getValidatedIntInput inputs lo hi = Some v \<Longrightarrow> lo \<le> v \<and> v \<le> hi"
  by (induction inputs lo hi rule: getValidatedIntInput.induct) (simp_all split: if_splits)

lemma read_valid_email_valid: "read_valid_email inputs = Some e \<Longrightarrow> isValidEmail e"
  by (induction inputs) (simp_all split: if_splits)

lemma chosen_index_in_range:
  assumes "getValidatedIntInput inputs 1 (size_to_int n) = Some v"
  shows "nat (v - 1) < n"
proof -
  from getValidatedIntInput_range [OF assms] have "1 \<le> v" "v \<le> size_to_int n"
    by simp_all
  with size_to_int_le [of n] show ?thesis by linarith
qed

lemma getCourse_valid:
  "isValidIndex i (size_to_int (length (courses m))) \<Longrightarrow>
     getCourse i m = Inr (nat i) \<and> nat i < length (courses m)"
  by (simp add: getCourse_def isValidIndex_in_range)

lemma call_through_courses:
  "courses (snd (call_through h method m)) = (courses m)[h := snd (method (courses m ! h))]"
  by (simp add: call_through_def split_beta)

lemma call_through_thrown:
  "fst (call_through h method m) = fst (method (courses m ! h))"
  by (simp add: call_through_def split_beta)

lemma list_update_changes:
  "h < length xs \<Longrightarrow> y \<noteq> xs ! h \<Longrightarrow> xs[h := y] \<noteq> xs"
  by (metis nth_list_update_eq)

lemma Teacher_addContent_frame:
  "Teacher_addContent self indexInput content s = Some s' \<Longrightarrow> s' = s"
  by (auto simp: Teacher_addContent_def Teacher_addContent_local_def Let_def
      split: if_splits option.splits)

lemma Teacher_addGrade_frame:
  "Teacher_addGrade self indexInput emailInput gradeInput s = Some s' \<Longrightarrow> s' = s"
  by (auto simp: Teacher_addGrade_def Teacher_addGrade_local_def Let_def
      split: if_splits option.splits)

lemma Teacher_addContent_copy:
  assumes idx: "getValidatedIntInput indexInput 1
                  (size_to_int (length (assigned_courses self (getCourses (lms s))))) = Some idx"
    and content: "isValidString content"
  shows "Teacher_addContent_local self indexInput content s =
           Some ((assigned_courses self (getCourses (lms s)))
                   [nat (idx - 1) :=
                      (assigned_courses self (getCourses (lms s)) ! nat (idx - 1))
                        \<lparr>contents :=
                           contents (assigned_courses self (getCourses (lms s)) ! nat (idx - 1))
                           @ [content]\<rparr>], s)"
proof -
  let ?A = "assigned_courses self (getCourses (lms s))"
  from chosen_index_in_range [OF idx] have k: "nat (idx - 1) < length ?A" .
  then have ne: "?A \<noteq> []" by auto
  then have "getCourses (lms s) \<noteq> []"
    by (auto simp: assigned_courses_def)
  with ne idx content show ?thesis
    by (simp add: Teacher_addContent_local_def Let_def addContent_def)
qed

lemma Teacher_addGrade_copy:
  assumes idx: "getValidatedIntInput indexInput 1
                  (size_to_int (length (assigned_courses self (getCourses (lms s))))) = Some idx"
    and em: "read_valid_email emailInput = Some e"
    and enrolled: "e \<in> set (getStudents (assigned_courses self (getCourses (lms s)) ! nat (idx - 1)))"
    and gr: "getValidatedIntInput gradeInput 0 100 = Some g"
  shows "Teacher_addGrade_local self indexInput emailInput gradeInput s =
           Some ((assigned_courses self (getCourses (lms s)))
                   [nat (idx - 1) :=
                      (assigned_courses self (getCourses (lms s)) ! nat (idx - 1))
                        \<lparr>grades :=
                           grades (assigned_courses self (getCourses (lms s)) ! nat (idx - 1))
                           @ [(e, g)]\<rparr>], s)"
proof -
  let ?A = "assigned_courses self (getCourses (lms s))"
  from chosen_index_in_range [OF idx] have k: "nat (idx - 1) < length ?A" .
  then have ne: "?A \<noteq> []" by auto
  then have ne': "getCourses (lms s) \<noteq> []"
    by (auto simp: assigned_courses_def)
  from getValidatedIntInput_range [OF gr] have g: "\<not> (g < 0 \<or> 100 < g)" by simp
  from read_valid_email_valid [OF em] have v: "isValidEmail e" .
  from ne ne' idx em enrolled gr g v show ?thesis
    by (simp add: Teacher_addGrade_local_def Let_def addGrade_eq student_found_iff)
qed

lemma record_contents_changed: "c\<lparr>contents := contents c @ [x]\<rparr> \<noteq> c"
proof
  assume "c\<lparr>contents := contents c @ [x]\<rparr> = c"
  then have "contents (c\<lparr>contents := contents c @ [x]\<rparr>) = contents c" by simp
  then show False by simp
qed

lemma record_grades_changed: "c\<lparr>grades := grades c @ [x]\<rparr> \<noteq> c"
proof
  assume "c\<lparr>grades := grades c @ [x]\<rparr> = c"
  then have "grades (c\<lparr>grades := grades c @ [x]\<rparr>) = grades c" by simp
  then show False by simp
qed

text \<open>
  C1. A method called on the reference that \<^verbatim>\<open>getCourse(i)\<close> returns for a valid index
  acts on the registry's own element: the registry's course sequence afterwards has the
  method's result at position \<open>i\<close>, so it differs from the sequence before whenever the
  method changed the course. \<^verbatim>\<open>Teacher::addGrade\<close> and \<^verbatim>\<open>Teacher::addContent\<close> build
  their list of the teacher's courses by copy and call the method on an element of that
  list: whenever they return, the process state, and with it the registry's course
  sequence, is what it was before, also when the call has changed the copy, which it
  does whenever the prompts accept an index, valid content, and an enrolled student's
  e-mail with a grade.
\<close>

theorem reference_persists_copy_does_not:
  fixes self :: user and s :: system
  defines "A \<equiv> assigned_courses self (getCourses (lms s))"
  shows
  "(isValidIndex i (size_to_int (length (courses m))) \<longrightarrow>
      getCourse i m = Inr (nat i)
      \<and> fst (call_through (nat i) method m) = fst (method (courses m ! nat i))
      \<and> courses (snd (call_through (nat i) method m)) =
          (courses m)[nat i := snd (method (courses m ! nat i))]
      \<and> courses (snd (call_through (nat i) method m)) ! nat i = snd (method (courses m ! nat i))
      \<and> (snd (method (courses m ! nat i)) \<noteq> courses m ! nat i \<longrightarrow>
           courses (snd (call_through (nat i) method m)) \<noteq> courses m))
   \<and> (Teacher_addGrade self indexInput emailInput gradeInput s = Some s' \<longrightarrow> s' = s)
   \<and> (Teacher_addContent self indexInput content s = Some s'' \<longrightarrow> s'' = s)
   \<and> (getValidatedIntInput indexInput 1 (size_to_int (length A)) = Some idx \<and>
       isValidString content \<longrightarrow>
         Teacher_addContent_local self indexInput content s =
           Some (A[nat (idx - 1) :=
                    (A ! nat (idx - 1))\<lparr>contents := contents (A ! nat (idx - 1)) @ [content]\<rparr>], s)
         \<and> A[nat (idx - 1) :=
                (A ! nat (idx - 1))\<lparr>contents := contents (A ! nat (idx - 1)) @ [content]\<rparr>] \<noteq> A
         \<and> Teacher_addContent self indexInput content s = Some s)
   \<and> (getValidatedIntInput indexInput 1 (size_to_int (length A)) = Some idx \<and>
       read_valid_email emailInput = Some e \<and>
       e \<in> set (getStudents (A ! nat (idx - 1))) \<and>
       getValidatedIntInput gradeInput 0 100 = Some g \<longrightarrow>
         Teacher_addGrade_local self indexInput emailInput gradeInput s =
           Some (A[nat (idx - 1) :=
                    (A ! nat (idx - 1))\<lparr>grades := grades (A ! nat (idx - 1)) @ [(e, g)]\<rparr>], s)
         \<and> A[nat (idx - 1) :=
                (A ! nat (idx - 1))\<lparr>grades := grades (A ! nat (idx - 1)) @ [(e, g)]\<rparr>] \<noteq> A
         \<and> Teacher_addGrade self indexInput emailInput gradeInput s = Some s)"
proof -
  have 1: "isValidIndex i (size_to_int (length (courses m))) \<longrightarrow>
      getCourse i m = Inr (nat i)
      \<and> fst (call_through (nat i) method m) = fst (method (courses m ! nat i))
      \<and> courses (snd (call_through (nat i) method m)) =
          (courses m)[nat i := snd (method (courses m ! nat i))]
      \<and> courses (snd (call_through (nat i) method m)) ! nat i = snd (method (courses m ! nat i))
      \<and> (snd (method (courses m ! nat i)) \<noteq> courses m ! nat i \<longrightarrow>
           courses (snd (call_through (nat i) method m)) \<noteq> courses m)"
  proof
    assume "isValidIndex i (size_to_int (length (courses m)))"
    from getCourse_valid [OF this]
    have g: "getCourse i m = Inr (nat i)" and k: "nat i < length (courses m)"
      by simp_all
    from k have "courses (snd (call_through (nat i) method m)) ! nat i =
        snd (method (courses m ! nat i))"
      by (simp add: call_through_courses)
    moreover from k have "snd (method (courses m ! nat i)) \<noteq> courses m ! nat i \<longrightarrow>
        courses (snd (call_through (nat i) method m)) \<noteq> courses m"
      by (simp add: call_through_courses list_update_changes)
    ultimately show "getCourse i m = Inr (nat i)
      \<and> fst (call_through (nat i) method m) = fst (method (courses m ! nat i))
      \<and> courses (snd (call_through (nat i) method m)) =
          (courses m)[nat i := snd (method (courses m ! nat i))]
      \<and> courses (snd (call_through (nat i) method m)) ! nat i = snd (method (courses m ! nat i))
      \<and> (snd (method (courses m ! nat i)) \<noteq> courses m ! nat i \<longrightarrow>
           courses (snd (call_through (nat i) method m)) \<noteq> courses m)"
      using g by (simp add: call_through_courses call_through_thrown)
  qed
  have 2: "Teacher_addGrade self indexInput emailInput gradeInput s = Some s' \<longrightarrow> s' = s"
    by (simp add: Teacher_addGrade_frame)
  have 3: "Teacher_addContent self indexInput content s = Some s'' \<longrightarrow> s'' = s"
    by (simp add: Teacher_addContent_frame)
  have 4: "getValidatedIntInput indexInput 1 (size_to_int (length A)) = Some idx \<and>
       isValidString content \<longrightarrow>
         Teacher_addContent_local self indexInput content s =
           Some (A[nat (idx - 1) :=
                    (A ! nat (idx - 1))\<lparr>contents := contents (A ! nat (idx - 1)) @ [content]\<rparr>], s)
         \<and> A[nat (idx - 1) :=
                (A ! nat (idx - 1))\<lparr>contents := contents (A ! nat (idx - 1)) @ [content]\<rparr>] \<noteq> A
         \<and> Teacher_addContent self indexInput content s = Some s"
  proof
    assume h: "getValidatedIntInput indexInput 1 (size_to_int (length A)) = Some idx \<and>
       isValidString content"
    then have "getValidatedIntInput indexInput 1 (size_to_int (length A)) = Some idx" ..
    then have k: "nat (idx - 1) < length A"
      by (rule chosen_index_in_range)
    from h have loc: "Teacher_addContent_local self indexInput content s =
           Some (A[nat (idx - 1) :=
                    (A ! nat (idx - 1))\<lparr>contents := contents (A ! nat (idx - 1)) @ [content]\<rparr>], s)"
      unfolding A_def by (simp add: Teacher_addContent_copy)
    from k have "A[nat (idx - 1) :=
                (A ! nat (idx - 1))\<lparr>contents := contents (A ! nat (idx - 1)) @ [content]\<rparr>] \<noteq> A"
      by (rule list_update_changes) (rule record_contents_changed)
    with loc show "Teacher_addContent_local self indexInput content s =
           Some (A[nat (idx - 1) :=
                    (A ! nat (idx - 1))\<lparr>contents := contents (A ! nat (idx - 1)) @ [content]\<rparr>], s)
         \<and> A[nat (idx - 1) :=
                (A ! nat (idx - 1))\<lparr>contents := contents (A ! nat (idx - 1)) @ [content]\<rparr>] \<noteq> A
         \<and> Teacher_addContent self indexInput content s = Some s"
      by (simp add: Teacher_addContent_def)
  qed
  have 5: "getValidatedIntInput indexInput 1 (size_to_int (length A)) = Some idx \<and>
       read_valid_email emailInput = Some e \<and>
       e \<in> set (getStudents (A ! nat (idx - 1))) \<and>
       getValidatedIntInput gradeInput 0 100 = Some g \<longrightarrow>
         Teacher_addGrade_local self indexInput emailInput gradeInput s =
           Some (A[nat (idx - 1) :=
                    (A ! nat (idx - 1))\<lparr>grades := grades (A ! nat (idx - 1)) @ [(e, g)]\<rparr>], s)
         \<and> A[nat (idx - 1) :=
                (A ! nat (idx - 1))\<lparr>grades := grades (A ! nat (idx - 1)) @ [(e, g)]\<rparr>] \<noteq> A
         \<and> Teacher_addGrade self indexInput emailInput gradeInput s = Some s"
  proof
    assume h: "getValidatedIntInput indexInput 1 (size_to_int (length A)) = Some idx \<and>
       read_valid_email emailInput = Some e \<and>
       e \<in> set (getStudents (A ! nat (idx - 1))) \<and>
       getValidatedIntInput gradeInput 0 100 = Some g"
    then have "getValidatedIntInput indexInput 1 (size_to_int (length A)) = Some idx" ..
    then have k: "nat (idx - 1) < length A"
      by (rule chosen_index_in_range)
    from h have loc: "Teacher_addGrade_local self indexInput emailInput gradeInput s =
           Some (A[nat (idx - 1) :=
                    (A ! nat (idx - 1))\<lparr>grades := grades (A ! nat (idx - 1)) @ [(e, g)]\<rparr>], s)"
      unfolding A_def by (simp add: Teacher_addGrade_copy)
    from k have "A[nat (idx - 1) :=
                (A ! nat (idx - 1))\<lparr>grades := grades (A ! nat (idx - 1)) @ [(e, g)]\<rparr>] \<noteq> A"
      by (rule list_update_changes) (rule record_grades_changed)
    with loc show "Teacher_addGrade_local self indexInput emailInput gradeInput s =
           Some (A[nat (idx - 1) :=
                    (A ! nat (idx - 1))\<lparr>grades := grades (A ! nat (idx - 1)) @ [(e, g)]\<rparr>], s)
         \<and> A[nat (idx - 1) :=
                (A ! nat (idx - 1))\<lparr>grades := grades (A ! nat (idx - 1)) @ [(e, g)]\<rparr>] \<noteq> A
         \<and> Teacher_addGrade self indexInput emailInput gradeInput s = Some s"
      by (simp add: Teacher_addGrade_def)
  qed
  from 1 2 3 4 5 show ?thesis by (intro conjI)
qed

theorem reference_persists_copy_does_not_witness:
  "isValidIndex 0 (size_to_int (length (courses (lms seed))))
   \<and> getCourse 0 (lms seed) = Inr 0
   \<and> map getContents (courses (snd (call_through 0 (addContent ''Sets'') (lms seed)))) =
       [[''Introduction to Algebra'', ''Advanced Calculus'', ''Sets''],
        [''Newton's Laws'', ''Thermodynamics'']]
   \<and> courses (snd (call_through 0 (addContent ''Sets'') (lms seed))) \<noteq> courses (lms seed)
   \<and> isValidString ''Sets''
   \<and> Teacher_addContent
        \<lparr>role = Teacher, username = ''teacher1'',
         email = ''teacher1@example.com'', password = ''teacherpass''\<rparr>
        [Some 1] ''Sets'' seed = Some seed
   \<and> map_option (map getContents \<circ> fst) (Teacher_addContent_local
        \<lparr>role = Teacher, username = ''teacher1'',
         email = ''teacher1@example.com'', password = ''teacherpass''\<rparr>
        [Some 1] ''Sets'' seed) =
       Some [[''Introduction to Algebra'', ''Advanced Calculus'', ''Sets'']]
   \<and> Teacher_addGrade
        \<lparr>role = Teacher, username = ''teacher1'',
         email = ''teacher1@example.com'', password = ''teacherpass''\<rparr>
        [Some 1] [''a@b.co''] [Some 90] seed_with_student = Some seed_with_student
   \<and> map_option (map getGrades \<circ> fst) (Teacher_addGrade_local
        \<lparr>role = Teacher, username = ''teacher1'',
         email = ''teacher1@example.com'', password = ''teacherpass''\<rparr>
        [Some 1] [''a@b.co''] [Some 90] seed_with_student) = Some [[(''a@b.co'', 90)]]
   \<and> map getGrades (courses (lms seed_with_student)) = [[], []]"
proof -
  let ?t = "\<lparr>role = Teacher, username = ''teacher1'',
             email = ''teacher1@example.com'', password = ''teacherpass''\<rparr>"
  let ?A = "assigned_courses ?t (getCourses (lms seed))"
  let ?B = "assigned_courses ?t (getCourses (lms seed_with_student))"
  have A: "?A = [\<lparr>courseName = ''Mathematics'', teacherEmail = ''teacher1@example.com'',
                  contents = [''Introduction to Algebra'', ''Advanced Calculus''],
                  grades = [], enrolledStudents = []\<rparr>]"
    by (simp add: assigned_courses_def seed_eq getCourses_def getTeacherEmail_def)
  have B: "?B = [\<lparr>courseName = ''Mathematics'', teacherEmail = ''teacher1@example.com'',
                  contents = [''Introduction to Algebra'', ''Advanced Calculus''],
                  grades = [], enrolledStudents = [''a@b.co'']\<rparr>]"
    by (simp add: assigned_courses_def seed_with_student_eq(2) getCourses_def
        getTeacherEmail_def)
  have vi: "isValidIndex 0 (size_to_int (length (courses (lms seed))))"
    by (simp add: seed_eq isValidIndex_def)
  have vs: "isValidString ''Sets''"
    by (simp add: isValidString_def)
  have ch: "snd (addContent ''Sets'' (courses (lms seed) ! nat 0)) \<noteq> courses (lms seed) ! nat 0"
    using vs by (simp add: addContent_def record_contents_changed)
  have pa: "getValidatedIntInput [Some 1] 1 (size_to_int (length ?A)) = Some 1"
    by (simp add: A)
  have pb: "getValidatedIntInput [Some 1] 1 (size_to_int (length ?B)) = Some 1"
    by (simp add: B)
  have em: "read_valid_email [''a@b.co''] = Some ''a@b.co''"
    by (simp add: valid_a_b_co)
  have en: "''a@b.co'' \<in> set (getStudents (?B ! nat (1 - 1)))"
    by (simp add: B getStudents_def)
  have gr: "getValidatedIntInput [Some 90] 0 100 = Some 90"
    by simp
  note ref = reference_persists_copy_does_not
    [of 0 "lms seed" "addContent ''Sets''" ?t "[Some 1]" "[]" "[]" seed seed "''Sets''" seed 1
        "[]" 0]
  note cpy = reference_persists_copy_does_not
    [of 0 "lms seed" "addContent ''Sets''" ?t "[Some 1]" "[''a@b.co'']" "[Some 90]"
        seed_with_student seed_with_student "''Sets''" seed_with_student 1 "''a@b.co''" 90]
  from ref vi have g0: "getCourse 0 (lms seed) = Inr (nat 0)"
    and upd: "courses (snd (call_through (nat 0) (addContent ''Sets'') (lms seed))) =
        (courses (lms seed))[nat 0 := snd (addContent ''Sets'' (courses (lms seed) ! nat 0))]"
    by blast+
  from g0 have g: "getCourse 0 (lms seed) = Inr 0"
    by simp
  from ref vi ch have "courses (snd (call_through (nat 0) (addContent ''Sets'') (lms seed))) \<noteq>
      courses (lms seed)"
    by blast
  then have ne: "courses (snd (call_through 0 (addContent ''Sets'') (lms seed))) \<noteq>
      courses (lms seed)"
    by simp
  from upd vs have shown: "map getContents
      (courses (snd (call_through 0 (addContent ''Sets'') (lms seed)))) =
       [[''Introduction to Algebra'', ''Advanced Calculus'', ''Sets''],
        [''Newton's Laws'', ''Thermodynamics'']]"
    by (simp add: seed_eq addContent_def getContents_def)
  from ref pa vs have tc: "Teacher_addContent ?t [Some 1] ''Sets'' seed = Some seed"
    and tcl: "Teacher_addContent_local ?t [Some 1] ''Sets'' seed =
      Some (?A[nat (1 - 1) := (?A ! nat (1 - 1))
                \<lparr>contents := contents (?A ! nat (1 - 1)) @ [''Sets'']\<rparr>], seed)"
    by blast+
  from tcl have tcl': "map_option (map getContents \<circ> fst)
      (Teacher_addContent_local ?t [Some 1] ''Sets'' seed) =
       Some [[''Introduction to Algebra'', ''Advanced Calculus'', ''Sets'']]"
    by (simp add: A getContents_def)
  from cpy pb em en gr
  have tg: "Teacher_addGrade ?t [Some 1] [''a@b.co''] [Some 90] seed_with_student =
      Some seed_with_student"
    and tgl: "Teacher_addGrade_local ?t [Some 1] [''a@b.co''] [Some 90] seed_with_student =
      Some (?B[nat (1 - 1) := (?B ! nat (1 - 1))
                \<lparr>grades := grades (?B ! nat (1 - 1)) @ [(''a@b.co'', 90)]\<rparr>],
            seed_with_student)"
    by blast+
  from tgl have tgl': "map_option (map getGrades \<circ> fst)
      (Teacher_addGrade_local ?t [Some 1] [''a@b.co''] [Some 90] seed_with_student) =
      Some [[(''a@b.co'', 90)]]"
    by (simp add: B getGrades_def)
  have reg: "map getGrades (courses (lms seed_with_student)) = [[], []]"
    by (simp add: seed_with_student_eq(2) getGrades_def)
  from vi g shown ne vs tc tcl' tg tgl' reg show ?thesis by (intro conjI)
qed

section \<open>The admin enrols a student\<close>

text \<open>
  C3, as amended. Given a valid student e-mail as the first line offered to the e-mail
  prompt and a valid course index as the first line offered to the index prompt,
  \<^verbatim>\<open>Admin::enrollStudent\<close> returns. When the e-mail belongs to a registered user it has
  changed nothing: no user record is created and the course's enrolment list is as
  before. When the e-mail is unseen in the user list it has appended a Student record for
  it to the user list and, through the reference from \<^verbatim>\<open>getCourse\<close>, appended the
  e-mail to the enrolment list of the chosen course, unless that list already had it.
\<close>

theorem admin_enroll_contract:
  assumes "isValidEmail studentEmail"
    and "1 \<le> userIndex" and "userIndex \<le> int (length (getCourses (lms s)))"
    and "length (getCourses (lms s)) < 2 ^ 31"
  shows "Admin_enrollStudent (Some userIndex # moreIndexInput) (studentEmail # moreEmailInput)
           studentPassword s =
         Some (if email_registered (users s) studentEmail then s
               else s\<lparr>users := users s @
                         [\<lparr>role = Student,
                           username = take (find_pos studentEmail CHR ''@'') studentEmail,
                           email = studentEmail, password = studentPassword\<rparr>],
                       lms := (lms s)\<lparr>courses := (courses (lms s))
                         [nat (userIndex - 1) :=
                            (if studentEmail \<in> set (enrolledStudents
                                  (courses (lms s) ! nat (userIndex - 1)))
                             then courses (lms s) ! nat (userIndex - 1)
                             else (courses (lms s) ! nat (userIndex - 1))
                                    \<lparr>enrolledStudents :=
                                       enrolledStudents (courses (lms s) ! nat (userIndex - 1))
                                       @ [studentEmail]\<rparr>)]\<rparr>\<rparr>)"
proof -
  from assms(4) have sz: "size_to_int (length (getCourses (lms s))) =
      int (length (getCourses (lms s)))"
    by (rule size_to_int_small)
  from assms(2,3) have ne: "getCourses (lms s) \<noteq> []"
    by auto
  from assms(2,3) sz have gc: "getCourse (userIndex - 1) (lms s) = Inr (nat (userIndex - 1))"
    by (simp add: getCourse_def isValidIndex_def getCourses_def)
  from assms(1) have pr: "enroll_prompt (users s) (studentEmail # moreEmailInput) =
      (if email_registered (users s) studentEmail then AlreadyRegistered
       else Accepted studentEmail)"
    by simp
  show ?thesis
  proof (cases "email_registered (users s) studentEmail")
    case True
    with ne sz gc pr assms(2,3) show ?thesis
      by (simp add: Admin_enrollStudent_def)
  next
    case False
    with ne sz gc pr assms(1,2,3) show ?thesis
      by (simp add: Admin_enrollStudent_def call_through_def enrollStudent_eq Let_def)
  qed
qed

theorem admin_enroll_contract_witness:
  "isValidEmail ''a@b.co'' \<and> (1::int) \<le> 1 \<and> 1 \<le> int (length (getCourses (lms seed)))
   \<and> length (getCourses (lms seed)) < 2 ^ 31
   \<and> \<not> email_registered (users seed) ''a@b.co''
   \<and> Admin_enrollStudent [Some 1] [''a@b.co''] ''pw'' seed = Some seed_with_student
   \<and> getStudents (getCourses (lms seed_with_student) ! 0) = [''a@b.co'']
   \<and> map role (users seed_with_student) = [Admin, Teacher, Teacher, Student]"
proof -
  have v: "isValidEmail ''a@b.co''" by (rule valid_a_b_co)
  have lo: "(1::int) \<le> 1" by simp
  have hi: "1 \<le> int (length (getCourses (lms seed)))"
    by (simp add: seed_eq getCourses_def)
  have sz: "length (getCourses (lms seed)) < 2 ^ 31"
    by (simp add: seed_eq getCourses_def)
  have unseen: "\<not> email_registered (users seed) ''a@b.co''"
    by (simp add: seed_eq)
  from admin_enroll_contract [OF v lo hi sz, of "[]" "[]" "''pw''"] unseen
  have r: "Admin_enrollStudent [Some 1] [''a@b.co''] ''pw'' seed = Some seed_with_student"
    by (simp add: seed_with_student_eq)
  have st: "getStudents (getCourses (lms seed_with_student) ! 0) = [''a@b.co'']"
    by (simp add: seed_with_student_eq getStudents_def getCourses_def)
  have ro: "map role (users seed_with_student) = [Admin, Teacher, Teacher, Student]"
    by (simp add: seed_with_student_eq)
  from v lo hi sz unseen r st ro show ?thesis by (intro conjI)
qed

text \<open>
  C3, as stated, fails for a registered student: after the admin has enrolled the new
  student \<open>a@b.co\<close> in course 1, enrolling the same, now registered, e-mail in course 2
  returns with the state unchanged, and the student is not in the enrolment list of
  course 2.
\<close>

theorem admin_enroll_registered_counterexample:
  "isValidEmail ''a@b.co''
   \<and> isValidIndex (2 - 1) (size_to_int (length (getCourses (lms seed_with_student))))
   \<and> email_registered (users seed_with_student) ''a@b.co''
   \<and> Admin_enrollStudent [Some 2] [''a@b.co''] ''pw'' seed_with_student = Some seed_with_student
   \<and> ''a@b.co'' \<notin> set (getStudents (getCourses (lms seed_with_student) ! 1))"
  by (simp add: seed_with_student_eq(2) Admin_enrollStudent_def getCourses_def getCourse_def
      isValidIndex_def getStudents_def valid_a_b_co)

section \<open>The admin adds a course\<close>

text \<open>
  What \<^verbatim>\<open>Admin::addCourse\<close> does keep: a course is refused when its teacher e-mail is
  already assigned, an unregistered e-mail leads to the offer and, on \<open>y\<close> or \<open>Y\<close>, to a
  new Teacher record, and teacher e-mails that were pairwise different over the registry
  stay so.
\<close>

lemma Admin_addCourse_refuses_assigned:
  assumes "teacher \<in> set (map teacherEmail (courses (lms s)))"
  shows "fst (Admin_addCourse name teacher addTeacher teacherName teacherPassword s) = None
         \<and> lms (snd (Admin_addCourse name teacher addTeacher teacherName teacherPassword s)) =
             lms s"
  using assms
  by (simp add: Admin_addCourse_def Let_def teacher_assigned_iff getCourses_def)

lemma Admin_addCourse_declined:
  assumes "\<not> email_registered (users s) teacher" "addTeacher \<noteq> CHR ''y''" "addTeacher \<noteq> CHR ''Y''"
  shows "Admin_addCourse name teacher addTeacher teacherName teacherPassword s = (None, s)"
  using assms by (simp add: Admin_addCourse_def)

lemma Admin_addCourse_registers:
  assumes "\<not> email_registered (users s) teacher" "addTeacher = CHR ''y'' \<or> addTeacher = CHR ''Y''"
  shows "users (snd (Admin_addCourse name teacher addTeacher teacherName teacherPassword s)) =
           users s @ [\<lparr>role = Teacher, username = teacherName,
                       email = teacher, password = teacherPassword\<rparr>]"
  using assms by (auto simp: Admin_addCourse_def Let_def split: sum.splits)

lemma Admin_addCourse_single_teacher:
  assumes "distinct (map teacherEmail (courses (lms s)))"
  shows "distinct (map teacherEmail (courses (lms
           (snd (Admin_addCourse name teacher addTeacher teacherName teacherPassword s)))))"
proof (cases "teacher \<in> set (map teacherEmail (courses (lms s)))")
  case True
  from Admin_addCourse_refuses_assigned [OF True] assms show ?thesis
    by simp
next
  case False
  with assms show ?thesis
    by (auto simp: Admin_addCourse_def Let_def teacher_assigned_iff getCourses_def
        addCourse_def dest: Course_fresh split: sum.splits)
qed

text \<open>
  C2 on the seeded state: the e-mail of the administrator is registered, so the scan
  for the teacher succeeds, no offer is made, and a course with the administrator as
  its teacher is added to the registry, although no user with that e-mail has the role
  Teacher.
\<close>

theorem admin_addCourse_accepts_non_teacher:
  "map role (filter (\<lambda>u. email u = ''admin1@example.com'') (users seed)) = [Admin]
   \<and> fst (Admin_addCourse ''Chemistry'' ''admin1@example.com'' CHR ''n'' [] [] seed) = None
   \<and> map getTeacherEmail (getCourses (lms (snd
        (Admin_addCourse ''Chemistry'' ''admin1@example.com'' CHR ''n'' [] [] seed)))) =
       [''teacher1@example.com'', ''teacher2@example.com'', ''admin1@example.com'']
   \<and> map getCourseName (getCourses (lms (snd
        (Admin_addCourse ''Chemistry'' ''admin1@example.com'' CHR ''n'' [] [] seed)))) =
       [''Mathematics'', ''Physics'', ''Chemistry'']
   \<and> users (snd (Admin_addCourse ''Chemistry'' ''admin1@example.com'' CHR ''n'' [] [] seed)) =
       users seed"
proof -
  have v: "isValidEmail ''admin1@example.com''"
    by (simp add: isValidEmail_cases)
  then show ?thesis
    by (simp add: seed_eq Admin_addCourse_def Course_def isValidString_def addCourse_def
        getCourses_def getTeacherEmail_def getCourseName_def)
qed

end
